theory Spec2Isabelle
  imports Complex_Main "HOL-Library.AList"
begin

section \<open>Values shared by all nodes\<close>

text \<open>
  JavaScript values that cross the node boundaries untyped (\<^verbatim>\<open>any\<close>, parsed JSON, the
  \<^verbatim>\<open>json\<close> object of an execution item) are JSON values. An object keeps its keys in
  insertion order, so it is an association list. JavaScript numbers that are only passed
  through (temperature, token limits) are rationals; counters that start at 0 and are only
  incremented are naturals. Strings are \<^typ>\<open>string\<close>; \<^verbatim>\<open>length\<close> of the source counts
  UTF-16 units, here it counts the characters of the list.
\<close>

type_synonym number = rat

datatype json =
    JNull
  | JBool bool
  | JNumber number
  | JString string
  | JArray "json list"
  | JObject "(string \<times> json) list"

text \<open>\<^verbatim>\<open>Array.isArray(v)\<close>.\<close>

fun Array_isArray :: "json \<Rightarrow> bool" where
  "Array_isArray (JArray xs) = True"
| "Array_isArray v = False"

text \<open>The truth value JavaScript gives a JSON value in a condition.\<close>

fun truthy :: "json \<Rightarrow> bool" where
  "truthy JNull = False"
| "truthy (JBool b) = b"
| "truthy (JNumber n) = (n \<noteq> 0)"
| "truthy (JString s) = (s \<noteq> [])"
| "truthy (JArray xs) = True"
| "truthy (JObject kvs) = True"

text \<open>
  A thrown JavaScript error: the name of its constructor, its message and its stack text.
  \<^verbatim>\<open>new NodeOperationError(node, message, {itemIndex})\<close> is \<open>NodeOperationError message\<close>;
  the stack text of an error built inside a node is never read by the nodes and is left empty.
\<close>

record js_error =
  err_ctor :: string
  err_message :: string
  err_stack :: string

definition NodeOperationError :: "string \<Rightarrow> js_error" where
  "NodeOperationError msg =
     \<lparr>err_ctor = ''NodeOperationError'', err_message = msg, err_stack = []\<rparr>"

text \<open>
  An asynchronous iterator, as \<^verbatim>\<open>for await\<close> sees it: the items it delivers, in order,
  and then either its normal end (\<open>None\<close>) or the error it throws (\<open>Some e\<close>).
\<close>

type_synonym 'c async_stream = "'c list \<times> js_error option"

text \<open>
  The states of a conversation. The enumeration \<^verbatim>\<open>ChatState\<close> belongs to the package
  \<^verbatim>\<open>@gravityai-dev/gravity-server\<close>, whose source is not part of this repository.
\<close>

definition ChatState_IDLE :: string where
  \<comment> \<open>Modelled from the spec: the value of \<^verbatim>\<open>ChatState.IDLE\<close>, declared outside src/.\<close>
  "ChatState_IDLE = ''idle''"

definition ChatState_ACTIVE :: string where
  \<comment> \<open>Modelled from the spec: the value of \<^verbatim>\<open>ChatState.ACTIVE\<close>, declared outside src/.\<close>
  "ChatState_ACTIVE = ''active''"

definition ChatState_THINKING :: string where
  \<comment> \<open>Modelled from the spec: the value of \<^verbatim>\<open>ChatState.THINKING\<close>, declared outside src/.\<close>
  "ChatState_THINKING = ''thinking''"

definition ChatState_RESPONDING :: string where
  \<comment> \<open>Modelled from the spec: the value of \<^verbatim>\<open>ChatState.RESPONDING\<close>, declared outside src/.\<close>
  "ChatState_RESPONDING = ''responding''"

definition ChatState_WAITING :: string where
  \<comment> \<open>Modelled from the spec: the value of \<^verbatim>\<open>ChatState.WAITING\<close>, declared outside src/.\<close>
  "ChatState_WAITING = ''waiting''"

definition ChatState_COMPLETE :: string where
  \<comment> \<open>Modelled from the spec: the value of \<^verbatim>\<open>ChatState.COMPLETE\<close>, declared outside src/.\<close>
  "ChatState_COMPLETE = ''complete''"

definition ChatState_ERROR :: string where
  \<comment> \<open>Modelled from the spec: the value of \<^verbatim>\<open>ChatState.ERROR\<close>, declared outside src/.\<close>
  "ChatState_ERROR = ''error''"

definition ChatState_CANCELLED :: string where
  \<comment> \<open>Modelled from the spec: the value of \<^verbatim>\<open>ChatState.CANCELLED\<close>, declared outside src/.\<close>
  "ChatState_CANCELLED = ''cancelled''"

section \<open>Items on the outputs of the streaming nodes\<close>

text \<open>
  The \<^verbatim>\<open>json\<close> of a stream chunk. The field \<open>chunk_timestamp\<close> holds what
  \<^verbatim>\<open>new Date().toISOString()\<close> returned when the record was built; the functions below take
  that reading as their first argument \<open>now\<close>. \<open>chunk_progressMessage\<close> is \<open>None\<close> when
  the key is not set.
\<close>

record stream_chunk =
  chunk_model :: string
  chunk_text :: string
  chunk_chunkIndex :: nat
  chunk_timestamp :: string
  chunk_state :: string
  chunk_progressMessage :: "string option"

record error_response =
  er_error :: bool
  er_message :: string
  er_stack :: string
  er_timestamp :: string

record response_metadata =
  md_timestamp :: string
  md_model :: string
  md_temperature :: number
  md_maxTokens :: number
  md_totalCharacters :: nat

record final_response =
  fr_model :: string
  fr_response :: string
  fr_chunkCount :: nat
  fr_messages :: "json list"
  fr_updatedMessages :: "json list"
  fr_metadata :: response_metadata

record mcp_metadata =
  mm_timestamp :: string
  mm_temperature :: number
  mm_maxTokens :: number
  mm_source :: string
  mm_done :: bool

record mcp_output =
  mo_type :: string
  mo_content :: string
  mo_model :: string
  mo_metadata :: mcp_metadata
  mo_providerId :: "string option"

datatype node_item =
    StreamChunk stream_chunk
  | FinalResponse final_response
  | McpOutput mcp_output
  | ErrorResponse error_response

text \<open>What \<^verbatim>\<open>sendClaudeRequest\<close> and \<^verbatim>\<open>sendOpenAIRequest\<close> resolve to.\<close>

record send_result =
  res_fullResponse :: string
  res_chunkCount :: nat

section \<open>OpenAIService\<close>

record OpenAIConfig =
  oc_apiKey :: string
  oc_organization :: "string option"
  oc_baseURL :: "string option"

record OpenAIRequestOptions =
  oo_model :: string
  oo_systemPrompt :: "string option"
  oo_messages :: "json list"
  oo_temperature :: number
  oo_maxTokens :: number
  oo_stream :: bool

text \<open>The argument of \<^verbatim>\<open>openai.chat.completions.create\<close>.\<close>

record openai_create_params =
  cp_model :: string
  cp_messages :: "json list"
  cp_temperature :: number
  cp_max_tokens :: number
  cp_stream :: bool

text \<open>
  A chunk of the completion stream: its \<^verbatim>\<open>choices\<close>, each with an optional
  \<^verbatim>\<open>delta\<close>, whose \<^verbatim>\<open>content\<close> may be missing or null.
\<close>

datatype openai_delta = OpenAIDelta "string option"
datatype openai_choice = OpenAIChoice "openai_delta option"
datatype openai_chunk = OpenAIChunk "openai_choice list"

text \<open>
  The client library: given the client's configuration and the request, it throws or
  returns the stream.
\<close>

type_synonym openai_client =
  "OpenAIConfig \<Rightarrow> openai_create_params \<Rightarrow> js_error + openai_chunk async_stream"

text \<open>\<^verbatim>\<open>chunk.choices[0]?.delta?.content || ''\<close>.\<close>

fun openai_content :: "openai_chunk \<Rightarrow> string" where
  "openai_content (OpenAIChunk []) = []"
| "openai_content (OpenAIChunk (OpenAIChoice None # cs)) = []"
| "openai_content (OpenAIChunk (OpenAIChoice (Some (OpenAIDelta None)) # cs)) = []"
| "openai_content (OpenAIChunk (OpenAIChoice (Some (OpenAIDelta (Some s))) # cs)) =
     (if s \<noteq> [] then s else [])"

text \<open>
  The body of the \<^verbatim>\<open>for await\<close> loop of \<^verbatim>\<open>sendOpenAIRequest\<close>, over the chunks the
  stream delivers. The accumulator is \<^verbatim>\<open>fullResponse\<close>, \<^verbatim>\<open>chunkCount\<close> and the state the
  callback \<^verbatim>\<open>onChunk\<close> writes to.
\<close>

fun openai_for_await ::
  "(string \<Rightarrow> nat \<Rightarrow> 's \<Rightarrow> 's) option \<Rightarrow> openai_chunk list \<Rightarrow> string \<times> nat \<times> 's
     \<Rightarrow> string \<times> nat \<times> 's" where
  "openai_for_await onChunk [] acc = acc"
| "openai_for_await onChunk (chunk # rest) (fullResponse, chunkCount, s) =
     (let content = openai_content chunk in
      if content \<noteq> [] then
        (let fullResponse' = fullResponse @ content;
             chunkCount' = chunkCount + 1;
             s' = (case onChunk of
                     None \<Rightarrow> s
                   | Some f \<Rightarrow> f content (chunkCount' - 1) s)
         in openai_for_await onChunk rest (fullResponse', chunkCount', s'))
      else openai_for_await onChunk rest (fullResponse, chunkCount, s))"

text \<open>
  \<^verbatim>\<open>sendOpenAIRequest\<close>: first the argument it builds for the client, then the function.
  The result is what the promise settles to, paired with the state the callback has left
  behind (also when the promise rejects).
\<close>

definition openai_createParams :: "OpenAIRequestOptions \<Rightarrow> openai_create_params" where
  "openai_createParams options =
     (let messages =
            (case oo_systemPrompt options of
               None \<Rightarrow> []
             | Some p \<Rightarrow>
                 if p \<noteq> [] then [JObject [(''role'', JString ''system''), (''content'', JString p)]]
                 else [])
            @ oo_messages options
      in \<lparr>cp_model = oo_model options, cp_messages = messages,
          cp_temperature = oo_temperature options,
          cp_max_tokens = oo_maxTokens options, cp_stream = True\<rparr>)"

definition sendOpenAIRequest ::
  "openai_client \<Rightarrow> OpenAIConfig \<Rightarrow> OpenAIRequestOptions
     \<Rightarrow> (string \<Rightarrow> nat \<Rightarrow> 's \<Rightarrow> 's) option \<Rightarrow> 's \<Rightarrow> (js_error + send_result) \<times> 's" where
  "sendOpenAIRequest client config options onChunk s =
     (case client config (openai_createParams options) of
        Inl e \<Rightarrow> (Inl e, s)
      | Inr (chunks, failure) \<Rightarrow>
          (case openai_for_await onChunk chunks ([], 0, s) of
             (full, cnt, s') \<Rightarrow>
               (case failure of
                  Some e \<Rightarrow> (Inl e, s')
                | None \<Rightarrow> (Inr \<lparr>res_fullResponse = full, res_chunkCount = cnt\<rparr>, s'))))"

text \<open>\<^verbatim>\<open>formatStreamChunk\<close> and \<^verbatim>\<open>createCompletionChunk\<close> of OpenAIService.\<close>

definition OpenAI_formatStreamChunk ::
  "string \<Rightarrow> string \<Rightarrow> string \<Rightarrow> nat \<Rightarrow> string option \<Rightarrow> string option \<Rightarrow> node_item" where
  "OpenAI_formatStreamChunk now model text chunkIndex stateOverride progressMessage =
     StreamChunk
       \<lparr>chunk_model = model, chunk_text = text, chunk_chunkIndex = chunkIndex,
        chunk_timestamp = now,
        chunk_state =
          (case stateOverride of
             None \<Rightarrow> ChatState_RESPONDING
           | Some st \<Rightarrow> if st \<noteq> [] then st else ChatState_RESPONDING),
        chunk_progressMessage =
          (case progressMessage of
             None \<Rightarrow> None
           | Some m \<Rightarrow> if m \<noteq> [] then Some m else None)\<rparr>"

definition OpenAI_createCompletionChunk ::
  "string \<Rightarrow> string \<Rightarrow> nat \<Rightarrow> string option \<Rightarrow> string option \<Rightarrow> node_item" where
  "OpenAI_createCompletionChunk now model chunkCount stateOverride progressMessage =
     StreamChunk
       \<lparr>chunk_model = model, chunk_text = '' '', chunk_chunkIndex = chunkCount,
        chunk_timestamp = now,
        chunk_state =
          (case stateOverride of
             None \<Rightarrow> ChatState_COMPLETE
           | Some st \<Rightarrow> if st \<noteq> [] then st else ChatState_COMPLETE),
        chunk_progressMessage =
          (case progressMessage of
             None \<Rightarrow> None
           | Some m \<Rightarrow> if m \<noteq> [] then Some m else None)\<rparr>"

text \<open>\<^verbatim>\<open>formatErrorResponse\<close>: \<^verbatim>\<open>error?.message || 'Unknown error'\<close>.\<close>

definition formatErrorResponse :: "string \<Rightarrow> js_error \<Rightarrow> node_item" where
  "formatErrorResponse now error =
     ErrorResponse
       \<lparr>er_error = True,
        er_message = (if err_message error \<noteq> [] then err_message error else ''Unknown error''),
        er_stack = (if err_stack error \<noteq> [] then err_stack error else []),
        er_timestamp = now\<rparr>"

text \<open>
  Reading a property of a parsed JSON object: \<open>None\<close> is \<^verbatim>\<open>undefined\<close>. A condition on
  \<^verbatim>\<open>obj.key\<close> holds when the key is there and its value is truthy.
\<close>

definition truthy_prop :: "(string \<times> json) list \<Rightarrow> string \<Rightarrow> bool" where
  "truthy_prop kvs k = (case map_of kvs k of None \<Rightarrow> False | Some v \<Rightarrow> truthy v)"

text \<open>
  \<^verbatim>\<open>processUserMessage\<close> of OpenAIService. \<^verbatim>\<open>JSON.parse\<close> is the argument \<open>parse\<close>
  (\<open>None\<close> when it throws). On a parsed value that is not an object, reading \<^verbatim>\<open>.role\<close>
  gives \<^verbatim>\<open>undefined\<close> or (on \<^verbatim>\<open>null\<close>) throws inside the \<^verbatim>\<open>try\<close>: both fall through to
  the plain text message.
\<close>

definition OpenAI_processUserMessage :: "(string \<Rightarrow> json option) \<Rightarrow> json \<Rightarrow> json list" where
  "OpenAI_processUserMessage parse userMessage =
     (case userMessage of
        JString s \<Rightarrow>
          (let plain = [JObject [(''role'', JString ''user''), (''content'', JString s)]] in
           case parse s of
             Some (JObject kvs) \<Rightarrow>
               if truthy_prop kvs ''role'' \<and> truthy_prop kvs ''content'' then [JObject kvs]
               else plain
           | _ \<Rightarrow> plain)
      | JArray xs \<Rightarrow> xs
      | JObject kvs \<Rightarrow> [JObject kvs]
      | _ \<Rightarrow> [JObject [(''role'', JString ''user''), (''content'', JString ''Hello'')]])"

definition OpenAI_createFinalResponseObject ::
  "string \<Rightarrow> string \<Rightarrow> string \<Rightarrow> nat \<Rightarrow> json list \<Rightarrow> number \<Rightarrow> number \<Rightarrow> final_response" where
  "OpenAI_createFinalResponseObject now model fullResponse chunkCount messages temperature maxTokens =
     \<lparr>fr_model = model, fr_response = fullResponse, fr_chunkCount = chunkCount,
      fr_messages = messages,
      fr_updatedMessages =
        messages @ [JObject [(''role'', JString ''assistant''), (''content'', JString fullResponse)]],
      fr_metadata =
        \<lparr>md_timestamp = now, md_model = model, md_temperature = temperature,
         md_maxTokens = maxTokens, md_totalCharacters = length fullResponse\<rparr>\<rparr>"

section \<open>GravityOpenAI\<close>

text \<open>
  What \<^verbatim>\<open>execute\<close> can reach through \<^verbatim>\<open>this\<close> and the libraries: the items on the main
  input; the workflow engine's resolution of the node's configured parameters, which takes
  the items on the input and an item index, since a parameter may be an expression over the
  item at that index (a field is \<open>None\<close> when the parameter is unset, so that
  \<^verbatim>\<open>getNodeParameter\<close> returns its fallback); the credentials (or the error
  \<^verbatim>\<open>getCredentials\<close> throws); the OpenAI client; \<^verbatim>\<open>JSON.parse\<close>; and the clock:
  \<open>Date_toISOString n\<close> is what the \<open>n\<close>-th \<^verbatim>\<open>new Date().toISOString()\<close> of the invocation
  returns, counted from 0.
\<close>

record INodeExecutionData =
  item_json :: "(string \<times> json) list"

record openai_parameters =
  op_model :: "string option"
  op_systemPrompt :: "string option"
  op_temperature :: "number option"
  op_maxTokens :: "number option"
  op_message :: "json option"
  op_baseURL :: "string option"

record openai_credentials =
  cr_apiKey :: string
  cr_organizationId :: "string option"

record openai_env =
  oe_resolveParameters :: "INodeExecutionData list \<Rightarrow> nat \<Rightarrow> openai_parameters"
  oe_getCredentials :: "js_error + openai_credentials"
  oe_getInputData :: "INodeExecutionData list"
  oe_client :: openai_client
  oe_JSON_parse :: "string \<Rightarrow> json option"
  oe_Date_toISOString :: "nat \<Rightarrow> string"

text \<open>
  The parameters \<^verbatim>\<open>execute\<close> reads: every call is
  \<^verbatim>\<open>this.getNodeParameter(name, itemIndex, fallback)\<close> with \<^verbatim>\<open>itemIndex = 0\<close> (the source says
  "using first item only"), on the items of this invocation.
\<close>

definition oe_parameters :: "openai_env \<Rightarrow> openai_parameters" where
  "oe_parameters env = oe_resolveParameters env (oe_getInputData env) 0"

text \<open>\<^verbatim>\<open>this.getNodeParameter(name, itemIndex, fallback)\<close>.\<close>

definition getNodeParameter :: "'a option \<Rightarrow> 'a \<Rightarrow> 'a" where
  "getNodeParameter p fallback = (case p of None \<Rightarrow> fallback | Some v \<Rightarrow> v)"

text \<open>
  The callback \<^verbatim>\<open>execute\<close> hands to \<^verbatim>\<open>sendOpenAIRequest\<close>. Its state is the array
  \<^verbatim>\<open>streamOutput\<close> and the number of clock readings made so far.
\<close>

definition GravityOpenAI_onChunk ::
  "(nat \<Rightarrow> string) \<Rightarrow> string \<Rightarrow> string \<Rightarrow> nat \<Rightarrow> node_item list \<times> nat \<Rightarrow> node_item list \<times> nat" where
  "GravityOpenAI_onChunk clock model text chunkIndex st =
     (case st of
        (streamOutput, ticks) \<Rightarrow>
          (streamOutput @ [OpenAI_formatStreamChunk (clock ticks) model text chunkIndex None None],
           ticks + 1))"

text \<open>The \<^verbatim>\<open>catch\<close> block of \<^verbatim>\<open>GravityOpenAI.execute\<close>.\<close>

definition GravityOpenAI_catch :: "string \<Rightarrow> js_error \<Rightarrow> node_item list list" where
  "GravityOpenAI_catch now error =
     (let errorResponse = formatErrorResponse now error
      in [[errorResponse], [errorResponse]])"

text \<open>The object literals \<^verbatim>\<open>openAIConfig\<close> and \<^verbatim>\<open>requestOptions\<close> of \<^verbatim>\<open>execute\<close>.\<close>

definition GravityOpenAI_openAIConfig :: "openai_env \<Rightarrow> openai_credentials \<Rightarrow> OpenAIConfig" where
  "GravityOpenAI_openAIConfig env openAICredentials =
     (let baseURL = getNodeParameter (op_baseURL (oe_parameters env)) []
      in \<lparr>oc_apiKey = cr_apiKey openAICredentials,
          oc_organization = cr_organizationId openAICredentials,
          oc_baseURL = (if baseURL \<noteq> [] then Some baseURL else None)\<rparr>)"

definition GravityOpenAI_requestOptions :: "openai_env \<Rightarrow> OpenAIRequestOptions" where
  "GravityOpenAI_requestOptions env =
     (let ps = oe_parameters env;
          model = getNodeParameter (op_model ps) [];
          systemPrompt = getNodeParameter (op_systemPrompt ps) [];
          temperature = getNodeParameter (op_temperature ps) (7 / 10);
          maxTokens = getNodeParameter (op_maxTokens ps) 1000;
          userMessage = getNodeParameter (op_message ps) (JString []);
          messages = OpenAI_processUserMessage (oe_JSON_parse env) userMessage
      in \<lparr>oo_model = model, oo_systemPrompt = Some systemPrompt,
          oo_messages = messages, oo_temperature = temperature,
          oo_maxTokens = maxTokens, oo_stream = True\<rparr>)"

definition GravityOpenAI_execute :: "openai_env \<Rightarrow> node_item list list" where
  "GravityOpenAI_execute env =
     (let clock = oe_Date_toISOString env in
      case oe_getCredentials env of
        Inl e \<Rightarrow> GravityOpenAI_catch (clock 0) e
      | Inr openAICredentials \<Rightarrow>
          (let openAIConfig = GravityOpenAI_openAIConfig env openAICredentials;
               requestOptions = GravityOpenAI_requestOptions env;
               model = oo_model requestOptions;
               messages = oo_messages requestOptions;
               temperature = oo_temperature requestOptions;
               maxTokens = oo_maxTokens requestOptions
           in case sendOpenAIRequest (oe_client env) openAIConfig requestOptions
                     (Some (GravityOpenAI_onChunk clock model)) ([], 0) of
                (Inl e, (streamOutput, ticks)) \<Rightarrow> GravityOpenAI_catch (clock ticks) e
              | (Inr r, (streamOutput, ticks)) \<Rightarrow>
                  (let fullResponse = res_fullResponse r;
                       chunkCount = res_chunkCount r;
                       streamOutput' =
                         streamOutput
                         @ [OpenAI_createCompletionChunk (clock ticks) model chunkCount None None];
                       finalResponseObject =
                         OpenAI_createFinalResponseObject (clock (ticks + 1)) model fullResponse
                           chunkCount messages temperature maxTokens;
                       finalOutput = [FinalResponse finalResponseObject]
                   in [streamOutput', finalOutput])))"

section \<open>BedrockService\<close>

record McpTool =
  tool_name :: json
  tool_description :: json
  tool_inputSchema :: json

record BedrockConfig =
  bc_region :: string
  bc_accessKeyId :: string
  bc_secretAccessKey :: string

record ClaudeRequestOptions =
  co_model :: string
  co_systemPrompt :: "string option"
  co_messages :: "json list"
  co_temperature :: number
  co_maxTokens :: number
  co_enableTools :: bool
  co_mcpTools :: "McpTool list"
  co_enableAnyTool :: "bool option"
  co_toolChoice :: "string option"

text \<open>
  The input of \<^verbatim>\<open>ConverseStreamCommand\<close>. \<open>tc_any\<close> says whether the key \<^verbatim>\<open>any\<close> was set
  on the tool configuration; \<open>tc_toolChoice\<close> is the name inside \<^verbatim>\<open>toolChoice.tool\<close>.
\<close>

record tool_config =
  tc_tools :: "McpTool list"
  tc_any :: bool
  tc_toolChoice :: "string option"

record converse_input =
  ci_modelId :: string
  ci_system :: "string list option"
  ci_messages :: "json list"
  ci_temperature :: number
  ci_maxTokens :: number
  ci_toolConfig :: "tool_config option"

text \<open>
  An event of the Converse stream: \<^verbatim>\<open>contentBlockDelta\<close>, its \<^verbatim>\<open>delta\<close> and the
  \<^verbatim>\<open>text\<close> of the delta may each be missing.
\<close>

datatype claude_delta = ClaudeDelta "string option"
datatype claude_block_delta = ClaudeBlockDelta "claude_delta option"
datatype claude_chunk = ClaudeChunk "claude_block_delta option"

text \<open>
  The Bedrock client: \<^verbatim>\<open>send\<close> throws or returns a response whose \<^verbatim>\<open>stream\<close> may be
  undefined.
\<close>

type_synonym bedrock_client =
  "BedrockConfig \<Rightarrow> converse_input \<Rightarrow> js_error + claude_chunk async_stream option"

text \<open>\<^verbatim>\<open>chunkAny.contentBlockDelta?.delta?.text\<close>, with \<open>None\<close> for \<^verbatim>\<open>undefined\<close>.\<close>

fun claude_text :: "claude_chunk \<Rightarrow> string option" where
  "claude_text (ClaudeChunk (Some (ClaudeBlockDelta (Some (ClaudeDelta t))))) = t"
| "claude_text c = None"

text \<open>The \<^verbatim>\<open>for await\<close> loop of \<^verbatim>\<open>sendClaudeRequest\<close>.\<close>

fun claude_for_await ::
  "(string \<Rightarrow> nat \<Rightarrow> 's \<Rightarrow> 's) option \<Rightarrow> claude_chunk list \<Rightarrow> string \<times> nat \<times> 's
     \<Rightarrow> string \<times> nat \<times> 's" where
  "claude_for_await onChunk [] acc = acc"
| "claude_for_await onChunk (chunk # rest) (fullResponse, chunkCount, s) =
     (case claude_text chunk of
        None \<Rightarrow> claude_for_await onChunk rest (fullResponse, chunkCount, s)
      | Some text \<Rightarrow>
          if text \<noteq> [] then
            (let fullResponse' = fullResponse @ text;
                 chunkCount' = chunkCount + 1;
                 s' = (case onChunk of
                         None \<Rightarrow> s
                       | Some f \<Rightarrow> f text (chunkCount' - 1) s)
             in claude_for_await onChunk rest (fullResponse', chunkCount', s'))
          else claude_for_await onChunk rest (fullResponse, chunkCount, s))"

definition claude_commandInput :: "ClaudeRequestOptions \<Rightarrow> converse_input" where
  "claude_commandInput options =
     \<lparr>ci_modelId = co_model options,
      ci_system =
        (case co_systemPrompt options of
           None \<Rightarrow> None
         | Some p \<Rightarrow> if p \<noteq> [] then Some [p] else None),
      ci_messages = co_messages options,
      ci_temperature = co_temperature options,
      ci_maxTokens = co_maxTokens options,
      ci_toolConfig =
        (if co_enableTools options \<and> length (co_mcpTools options) > 0 then
           Some \<lparr>tc_tools = co_mcpTools options,
                 tc_any = (co_enableAnyTool options = Some True),
                 tc_toolChoice =
                   (case co_toolChoice options of
                      None \<Rightarrow> None
                    | Some c \<Rightarrow> if c \<noteq> [] then Some c else None)\<rparr>
         else None)\<rparr>"

definition sendClaudeRequest ::
  "bedrock_client \<Rightarrow> BedrockConfig \<Rightarrow> ClaudeRequestOptions
     \<Rightarrow> (string \<Rightarrow> nat \<Rightarrow> 's \<Rightarrow> 's) option \<Rightarrow> 's \<Rightarrow> (js_error + send_result) \<times> 's" where
  "sendClaudeRequest client config options onChunk s =
     (case client config (claude_commandInput options) of
        Inl e \<Rightarrow> (Inl e, s)
      | Inr None \<Rightarrow> (Inr \<lparr>res_fullResponse = [], res_chunkCount = 0\<rparr>, s)
      | Inr (Some (chunks, failure)) \<Rightarrow>
          (case claude_for_await onChunk chunks ([], 0, s) of
             (full, cnt, s') \<Rightarrow>
               (case failure of
                  Some e \<Rightarrow> (Inl e, s')
                | None \<Rightarrow> (Inr \<lparr>res_fullResponse = full, res_chunkCount = cnt\<rparr>, s'))))"

text \<open>
  \<^verbatim>\<open>processUserMessage\<close> of BedrockService: as for OpenAI, but an array is an object like
  any other and the plain message wraps the text in a content block.
\<close>

definition Bedrock_processUserMessage :: "(string \<Rightarrow> json option) \<Rightarrow> json \<Rightarrow> json list" where
  "Bedrock_processUserMessage parse userMessage =
     (case userMessage of
        JString s \<Rightarrow>
          (let plain = [JObject [(''role'', JString ''user''),
                                 (''content'', JArray [JObject [(''text'', JString s)]])]] in
           case parse s of
             Some (JObject kvs) \<Rightarrow>
               if truthy_prop kvs ''role'' \<and> truthy_prop kvs ''content'' then [JObject kvs]
               else plain
           | _ \<Rightarrow> plain)
      | JArray xs \<Rightarrow> [JArray xs]
      | JObject kvs \<Rightarrow> [JObject kvs]
      | _ \<Rightarrow> [JObject [(''role'', JString ''user''),
                       (''content'', JArray [JObject [(''text'', JString ''Hello'')]])]])"

text \<open>\<^verbatim>\<open>extractMcpTools\<close>: the \<^verbatim>\<open>tool\<close> of each input that is an object with the three keys.\<close>

fun extractMcpTools :: "INodeExecutionData list \<Rightarrow> McpTool list" where
  "extractMcpTools [] = []"
| "extractMcpTools (toolInput # rest) =
     (case map_of (item_json toolInput) ''tool'' of
        Some (JObject tool) \<Rightarrow>
          (case (map_of tool ''name'', map_of tool ''description'', map_of tool ''inputSchema'') of
             (Some n, Some d, Some i) \<Rightarrow>
               \<lparr>tool_name = n, tool_description = d, tool_inputSchema = i\<rparr> # extractMcpTools rest
           | _ \<Rightarrow> extractMcpTools rest)
      | _ \<Rightarrow> extractMcpTools rest)"

text \<open>\<^verbatim>\<open>formatMcpOutput\<close>; \<^verbatim>\<open>model.split(':')[0]\<close> is the model up to its first colon.\<close>

definition formatMcpOutput ::
  "string \<Rightarrow> string \<Rightarrow> string \<Rightarrow> number \<Rightarrow> number \<Rightarrow> bool \<Rightarrow> node_item" where
  "formatMcpOutput now fullResponse model temperature maxTokens useMcpProvider =
     McpOutput
       \<lparr>mo_type = ''text'', mo_content = fullResponse,
        mo_model = takeWhile (\<lambda>c. c \<noteq> CHR '':'') model,
        mo_metadata =
          \<lparr>mm_timestamp = now, mm_temperature = temperature, mm_maxTokens = maxTokens,
           mm_source = ''claude'', mm_done = True\<rparr>,
        mo_providerId = (if useMcpProvider then Some ''mcp'' else None)\<rparr>"

definition Bedrock_createFinalResponseObject ::
  "string \<Rightarrow> string \<Rightarrow> string \<Rightarrow> nat \<Rightarrow> json list \<Rightarrow> number \<Rightarrow> number \<Rightarrow> final_response" where
  "Bedrock_createFinalResponseObject now model fullResponse chunkCount messages temperature maxTokens =
     \<lparr>fr_model = model, fr_response = fullResponse, fr_chunkCount = chunkCount,
      fr_messages = messages,
      fr_updatedMessages =
        messages @ [JObject [(''role'', JString ''assistant''),
                             (''content'', JArray [JObject [(''text'', JString fullResponse)]])]],
      fr_metadata =
        \<lparr>md_timestamp = now, md_model = model, md_temperature = temperature,
         md_maxTokens = maxTokens, md_totalCharacters = length fullResponse\<rparr>\<rparr>"

text \<open>
  \<^verbatim>\<open>formatStreamChunk(model, text, chunkIndex)\<close> and
  \<^verbatim>\<open>createCompletionChunk(model, chunkCount)\<close> of BedrockService: they have no parameter for
  a state or a progress message.
\<close>

definition Bedrock_formatStreamChunk :: "string \<Rightarrow> string \<Rightarrow> string \<Rightarrow> nat \<Rightarrow> node_item" where
  "Bedrock_formatStreamChunk now model text chunkIndex =
     StreamChunk
       \<lparr>chunk_model = model, chunk_text = text, chunk_chunkIndex = chunkIndex,
        chunk_timestamp = now, chunk_state = ChatState_RESPONDING,
        chunk_progressMessage = None\<rparr>"

definition Bedrock_createCompletionChunk :: "string \<Rightarrow> string \<Rightarrow> nat \<Rightarrow> node_item" where
  "Bedrock_createCompletionChunk now model chunkCount =
     StreamChunk
       \<lparr>chunk_model = model, chunk_text = '' '', chunk_chunkIndex = chunkCount,
        chunk_timestamp = now, chunk_state = ChatState_COMPLETE,
        chunk_progressMessage = None\<rparr>"

section \<open>GravityClaude\<close>

text \<open>
  \<^verbatim>\<open>String.prototype.trim\<close>. A character of a \<^typ>\<open>string\<close> stands for a code unit below
  0x100; among these, the white space and line terminators that \<^verbatim>\<open>trim\<close> removes are
  U+0009 to U+000D, the space U+0020 and the no-break space U+00A0.
\<close>

definition is_js_space :: "char \<Rightarrow> bool" where
  "is_js_space c =
     (c \<in> set [CHR 0x09, CHR 0x0A, CHR 0x0B, CHR 0x0C, CHR 0x0D, CHR 0x20, CHR 0xA0])"

definition trim :: "string \<Rightarrow> string" where
  "trim s = rev (dropWhile is_js_space (rev (dropWhile is_js_space s)))"

record claude_advancedOptions =
  ao_state :: "string option"
  ao_progressMessage :: "string option"

record claude_parameters =
  cl_model :: "string option"
  cl_systemPrompt :: "string option"
  cl_temperature :: "number option"
  cl_maxTokens :: "number option"
  cl_message :: "json option"
  cl_enableAnyTool :: "bool option"
  cl_toolChoice :: "string option"
  cl_advancedOptions :: "claude_advancedOptions option"

record aws_credentials =
  aws_accessKeyId :: string
  aws_secretAccessKey :: string

text \<open>
  The surroundings of \<^verbatim>\<open>GravityClaude.execute\<close>. \<open>ce_parameters\<close> holds the node
  parameters as the engine has resolved them for item index 0. \<open>ce_getInputData i\<close> is
  \<^verbatim>\<open>this.getInputData(i)\<close>: it throws, or returns the items (\<open>None\<close> when it returns
  nothing). \<open>ce_AWS_REGION\<close> is \<^verbatim>\<open>process.env.AWS_REGION\<close>.
\<close>

record claude_env =
  ce_parameters :: claude_parameters
  ce_getInputData :: "nat \<Rightarrow> js_error + INodeExecutionData list option"
  ce_getCredentials :: "js_error + aws_credentials"
  ce_AWS_REGION :: "string option"
  ce_client :: bedrock_client
  ce_JSON_parse :: "string \<Rightarrow> json option"
  ce_Date_toISOString :: "nat \<Rightarrow> string"

text \<open>
  The callback of \<^verbatim>\<open>execute\<close>. The source calls
  \<^verbatim>\<open>formatStreamChunk(model, text, chunkIndex, advancedOptions.state, advancedOptions.progressMessage)\<close>;
  the imported function declares three parameters, so the last two arguments are
  evaluated and dropped.
\<close>

definition GravityClaude_onChunk ::
  "(nat \<Rightarrow> string) \<Rightarrow> string \<Rightarrow> claude_advancedOptions \<Rightarrow> string \<Rightarrow> nat
     \<Rightarrow> node_item list \<times> nat \<Rightarrow> node_item list \<times> nat" where
  "GravityClaude_onChunk clock model advancedOptions text chunkIndex st =
     (case st of
        (streamOutput, ticks) \<Rightarrow>
          (streamOutput @ [Bedrock_formatStreamChunk (clock ticks) model text chunkIndex],
           ticks + 1))"

text \<open>The \<^verbatim>\<open>catch\<close> block of \<^verbatim>\<open>GravityClaude.execute\<close>.\<close>

definition GravityClaude_catch :: "string \<Rightarrow> js_error \<Rightarrow> node_item list list" where
  "GravityClaude_catch now error =
     (let errorResponse = formatErrorResponse now error
      in [[errorResponse], [errorResponse], [errorResponse]])"

text \<open>
  The object literals \<^verbatim>\<open>bedrockConfig\<close> and \<^verbatim>\<open>requestOptions\<close> of \<^verbatim>\<open>execute\<close>; the
  latter needs the tools read from input 1.
\<close>

definition GravityClaude_bedrockConfig :: "claude_env \<Rightarrow> aws_credentials \<Rightarrow> BedrockConfig" where
  "GravityClaude_bedrockConfig env awsCredentials =
     \<lparr>bc_region =
        (case ce_AWS_REGION env of
           None \<Rightarrow> ''us-east-1''
         | Some r \<Rightarrow> if r \<noteq> [] then r else ''us-east-1''),
      bc_accessKeyId = aws_accessKeyId awsCredentials,
      bc_secretAccessKey = aws_secretAccessKey awsCredentials\<rparr>"

definition GravityClaude_requestOptions ::
  "claude_env \<Rightarrow> INodeExecutionData list \<Rightarrow> ClaudeRequestOptions" where
  "GravityClaude_requestOptions env toolInputs =
     (let mcpTools = extractMcpTools toolInputs;
          enableTools = (length mcpTools > 0);
          ps = ce_parameters env;
          model = getNodeParameter (cl_model ps) [];
          systemPrompt = getNodeParameter (cl_systemPrompt ps) [];
          temperature = getNodeParameter (cl_temperature ps) (7 / 10);
          maxTokens = getNodeParameter (cl_maxTokens ps) 1000;
          userMessage = getNodeParameter (cl_message ps) (JString []);
          enableAnyTool = getNodeParameter (cl_enableAnyTool ps) False;
          toolChoice = getNodeParameter (cl_toolChoice ps) [];
          messages = Bedrock_processUserMessage (ce_JSON_parse env) userMessage
      in \<lparr>co_model = model, co_systemPrompt = Some systemPrompt,
          co_messages = messages, co_temperature = temperature,
          co_maxTokens = maxTokens, co_enableTools = enableTools,
          co_mcpTools = mcpTools, co_enableAnyTool = Some enableAnyTool,
          co_toolChoice = (if trim toolChoice \<noteq> [] then Some (trim toolChoice) else None)\<rparr>)"

text \<open>
  \<^verbatim>\<open>GravityClaude.execute\<close>. As in the callback, the call of \<^verbatim>\<open>createCompletionChunk\<close>
  passes \<^verbatim>\<open>advancedOptions.state\<close> and \<^verbatim>\<open>advancedOptions.progressMessage\<close> to a function of
  two parameters.
\<close>

definition GravityClaude_execute :: "claude_env \<Rightarrow> node_item list list" where
  "GravityClaude_execute env =
     (let clock = ce_Date_toISOString env in
      case ce_getInputData env 1 of
        Inl e \<Rightarrow> GravityClaude_catch (clock 0) e
      | Inr got \<Rightarrow>
          (let toolInputs = (case got of None \<Rightarrow> [] | Some xs \<Rightarrow> xs);
               requestOptions = GravityClaude_requestOptions env toolInputs;
               model = co_model requestOptions;
               messages = co_messages requestOptions;
               temperature = co_temperature requestOptions;
               maxTokens = co_maxTokens requestOptions;
               advancedOptions =
                 getNodeParameter (cl_advancedOptions (ce_parameters env))
                   \<lparr>ao_state = None, ao_progressMessage = None\<rparr>
           in case ce_getCredentials env of
                Inl e \<Rightarrow> GravityClaude_catch (clock 0) e
              | Inr awsCredentials \<Rightarrow>
                  (let bedrockConfig = GravityClaude_bedrockConfig env awsCredentials
                   in case sendClaudeRequest (ce_client env) bedrockConfig requestOptions
                             (Some (GravityClaude_onChunk clock model advancedOptions)) ([], 0) of
                        (Inl e, (streamOutput, ticks)) \<Rightarrow> GravityClaude_catch (clock ticks) e
                      | (Inr r, (streamOutput, ticks)) \<Rightarrow>
                          (let fullResponse = res_fullResponse r;
                               chunkCount = res_chunkCount r;
                               streamOutput' =
                                 streamOutput
                                 @ [Bedrock_createCompletionChunk (clock ticks) model chunkCount];
                               finalResponseObject =
                                 Bedrock_createFinalResponseObject (clock (ticks + 1)) model
                                   fullResponse chunkCount messages temperature maxTokens;
                               finalOutput = [FinalResponse finalResponseObject];
                               mcpOutput =
                                 [formatMcpOutput (clock (ticks + 2)) fullResponse model temperature
                                    maxTokens True]
                           in [streamOutput', finalOutput, mcpOutput]))))"

section \<open>Envelopes of the message bus\<close>

text \<open>
  The discriminants \<^verbatim>\<open>MessageType\<close>, the builders \<^verbatim>\<open>createText\<close>, \<^verbatim>\<open>createJsonData\<close>, ...
  and the \<^verbatim>\<open>Publisher\<close> belong to \<^verbatim>\<open>@gravityai-dev/gravity-server\<close>. The nodes only build
  the base event and the arguments of these builders.
\<close>

definition MessageType_TEXT :: string where
  \<comment> \<open>Modelled from the spec: the value of \<^verbatim>\<open>MessageType.TEXT\<close>, declared outside src/.\<close>
  "MessageType_TEXT = ''text''"

definition MessageType_JSON_DATA :: string where
  \<comment> \<open>Modelled from the spec: the value of \<^verbatim>\<open>MessageType.JSON_DATA\<close>, declared outside src/.\<close>
  "MessageType_JSON_DATA = ''jsonData''"

definition MessageType_IMAGE_RESPONSE :: string where
  \<comment> \<open>Modelled from the spec: the value of \<^verbatim>\<open>MessageType.IMAGE_RESPONSE\<close>, declared outside src/.\<close>
  "MessageType_IMAGE_RESPONSE = ''imageResponse''"

definition MessageType_TOOL_OUTPUT :: string where
  \<comment> \<open>Modelled from the spec: the value of \<^verbatim>\<open>MessageType.TOOL_OUTPUT\<close>, declared outside src/.\<close>
  "MessageType_TOOL_OUTPUT = ''toolOutput''"

definition MessageType_ACTION_SUGGESTION :: string where
  \<comment> \<open>Modelled from the spec: the value of \<^verbatim>\<open>MessageType.ACTION_SUGGESTION\<close>, declared outside src/.\<close>
  "MessageType_ACTION_SUGGESTION = ''actionSuggestion''"

definition MessageType_PROGRESS_UPDATE :: string where
  \<comment> \<open>Modelled from the spec: the value of \<^verbatim>\<open>MessageType.PROGRESS_UPDATE\<close>, declared outside src/.\<close>
  "MessageType_PROGRESS_UPDATE = ''progressUpdate''"

definition MessageType_MESSAGE_CHUNK :: string where
  \<comment> \<open>Modelled from the spec: the value of \<^verbatim>\<open>MessageType.MESSAGE_CHUNK\<close>, declared outside src/.\<close>
  "MessageType_MESSAGE_CHUNK = ''messageChunk''"

definition MessageType_METADATA :: string where
  \<comment> \<open>Modelled from the spec: the value of \<^verbatim>\<open>MessageType.METADATA\<close>, declared outside src/.\<close>
  "MessageType_METADATA = ''metadata''"

text \<open>The object literal \<^verbatim>\<open>baseEvent\<close> of GravityOutput and GravityUpdate.\<close>

record base_event =
  ev_id :: string
  ev_chatId :: string
  ev_conversationId :: string
  ev_userId :: string
  ev_providerId :: string
  ev_timestamp :: nat
  ev_state :: string

text \<open>The object literal \<^verbatim>\<open>formattedData\<close> of the JSON data case.\<close>

record formatted_data =
  fd_dataType :: string
  fd_items :: "json list"

datatype payload =
    TextPayload string
  | JsonDataPayload formatted_data
  | ImageResponsePayload string string
  | ToolOutputPayload string json
  | ActionSuggestionPayload string json
  | ProgressUpdatePayload string
  | MessageChunkPayload string
  | MetadataPayload string

record voice_config =
  vc_enabled :: bool
  vc_textField :: string

record gravity_message =
  gm_base :: base_event
  gm_type :: string
  gm_payload :: payload
  gm_voiceConfig :: "voice_config option"

definition createText :: "base_event \<Rightarrow> string \<Rightarrow> gravity_message" where
  \<comment> \<open>Modelled from the spec: the builder of gravity-server attaches discriminant and payload.\<close>
  "createText base text =
     \<lparr>gm_base = base, gm_type = MessageType_TEXT, gm_payload = TextPayload text,
      gm_voiceConfig = None\<rparr>"

definition createJsonData :: "base_event \<Rightarrow> formatted_data \<Rightarrow> gravity_message" where
  \<comment> \<open>Modelled from the spec: the builder of gravity-server attaches discriminant and payload.\<close>
  "createJsonData base formattedData =
     \<lparr>gm_base = base, gm_type = MessageType_JSON_DATA,
      gm_payload = JsonDataPayload formattedData, gm_voiceConfig = None\<rparr>"

definition createImageResponse :: "base_event \<Rightarrow> string \<Rightarrow> string \<Rightarrow> gravity_message" where
  \<comment> \<open>Modelled from the spec: the builder of gravity-server attaches discriminant and payload.\<close>
  "createImageResponse base url alt =
     \<lparr>gm_base = base, gm_type = MessageType_IMAGE_RESPONSE,
      gm_payload = ImageResponsePayload url alt, gm_voiceConfig = None\<rparr>"

definition createToolOutput :: "base_event \<Rightarrow> string \<Rightarrow> json \<Rightarrow> gravity_message" where
  \<comment> \<open>Modelled from the spec: the builder of gravity-server attaches discriminant and payload.\<close>
  "createToolOutput base tool result =
     \<lparr>gm_base = base, gm_type = MessageType_TOOL_OUTPUT,
      gm_payload = ToolOutputPayload tool result, gm_voiceConfig = None\<rparr>"

definition createActionSuggestion :: "base_event \<Rightarrow> string \<Rightarrow> json \<Rightarrow> gravity_message" where
  \<comment> \<open>Modelled from the spec: the builder of gravity-server attaches discriminant and payload.\<close>
  "createActionSuggestion base actionType payload =
     \<lparr>gm_base = base, gm_type = MessageType_ACTION_SUGGESTION,
      gm_payload = ActionSuggestionPayload actionType payload, gm_voiceConfig = None\<rparr>"

definition createProgressUpdate :: "base_event \<Rightarrow> string \<Rightarrow> gravity_message" where
  \<comment> \<open>Modelled from the spec: the builder of gravity-server attaches discriminant and payload.\<close>
  "createProgressUpdate base message =
     \<lparr>gm_base = base, gm_type = MessageType_PROGRESS_UPDATE,
      gm_payload = ProgressUpdatePayload message, gm_voiceConfig = None\<rparr>"

definition createMessageChunk :: "base_event \<Rightarrow> string \<Rightarrow> gravity_message" where
  \<comment> \<open>Modelled from the spec: the builder of gravity-server attaches discriminant and payload.\<close>
  "createMessageChunk base text =
     \<lparr>gm_base = base, gm_type = MessageType_MESSAGE_CHUNK,
      gm_payload = MessageChunkPayload text, gm_voiceConfig = None\<rparr>"

definition createMetadata :: "base_event \<Rightarrow> string \<Rightarrow> gravity_message" where
  \<comment> \<open>Modelled from the spec: the builder of gravity-server attaches discriminant and payload.\<close>
  "createMetadata base metadataStr =
     \<lparr>gm_base = base, gm_type = MessageType_METADATA,
      gm_payload = MetadataPayload metadataStr, gm_voiceConfig = None\<rparr>"

text \<open>\<^verbatim>\<open>Publisher.fromCredentials(serverUrl, apiKey, providerId)\<close> keeps its three arguments.\<close>

record publisher =
  pb_serverUrl :: string
  pb_apiKey :: string
  pb_providerId :: string

record gravity_credentials =
  gc_serverUrl :: string
  gc_apiKey :: string

text \<open>The decimal digits of a natural number, as a template literal prints it.\<close>

fun decimal :: "nat \<Rightarrow> string" where
  "decimal n =
     (if n < 10 then [''0123456789'' ! n]
      else decimal (n div 10) @ [''0123456789'' ! (n mod 10)])"

declare decimal.simps [simp del]

text \<open>
  The value of the field \<^verbatim>\<open>id\<close>:
  \<^verbatim>\<open>`${Date.now()}-${Math.random().toString(36).substr(2, 9)}`\<close>, from the clock reading
  \<open>now\<close> and the base-36 text \<open>random36\<close> of the random number.
\<close>

definition event_id :: "nat \<Rightarrow> string \<Rightarrow> string" where
  "event_id now random36 = decimal now @ ''-'' @ take 9 (drop 2 random36)"

text \<open>
  \<^verbatim>\<open>`n8n:${workflowId}:${nodeId}`\<close> with \<^verbatim>\<open>this.getWorkflow()?.id?.toString() || "unknown"\<close> and
  \<^verbatim>\<open>this.getNode()?.id || "unknown"\<close>.
\<close>

definition nodeProviderId :: "string option \<Rightarrow> string option \<Rightarrow> string" where
  "nodeProviderId workflow_id node_id =
     (let workflowId = (case workflow_id of None \<Rightarrow> ''unknown''
                        | Some w \<Rightarrow> if w \<noteq> [] then w else ''unknown'');
          nodeId = (case node_id of None \<Rightarrow> ''unknown''
                    | Some n \<Rightarrow> if n \<noteq> [] then n else ''unknown'')
      in ''n8n:'' @ workflowId @ '':'' @ nodeId)"

text \<open>
  An object literal that spreads \<open>obj\<close> and then sets the keys of \<open>kvs\<close> in order: a key
  already there keeps its place and takes the new value, a new key goes to the end.
\<close>

definition spread_with :: "(string \<times> json) list \<Rightarrow> (string \<times> json) list \<Rightarrow> (string \<times> json) list" where
  "spread_with obj kvs = foldl (\<lambda>acc kv. AList.update (fst kv) (snd kv) acc) obj kvs"

text \<open>
  The state an invocation of GravityOutput or GravityUpdate threads through its items:
  the array \<^verbatim>\<open>returnData\<close>, the envelopes the bus has accepted (with their channel), and
  the numbers of clock readings and of random draws made so far.
\<close>

record node_state =
  ns_returnData :: "INodeExecutionData list"
  ns_published :: "(string \<times> gravity_message) list"
  ns_ticks :: nat
  ns_draws :: nat

text \<open>
  \<^verbatim>\<open>await publisher.publishEvent(channel, message)\<close>: the bus (\<open>bus\<close>) rejects with an error
  or accepts the envelope.
\<close>

definition publishEvent ::
  "(publisher \<Rightarrow> string \<Rightarrow> gravity_message \<Rightarrow> js_error option) \<Rightarrow> publisher \<Rightarrow> string
     \<Rightarrow> gravity_message \<Rightarrow> node_state \<Rightarrow> js_error option \<times> node_state" where
  "publishEvent bus pub channel message st =
     (case bus pub channel message of
        Some e \<Rightarrow> (Some e, st)
      | None \<Rightarrow> (None, st\<lparr>ns_published := ns_published st @ [(channel, message)]\<rparr>))"

text \<open>
  The surroundings of an invocation of GravityOutput or GravityUpdate: the items on the
  main input, the node parameters resolved for each item index, the credentials (or the
  error \<^verbatim>\<open>getCredentials\<close> throws), the ids of workflow and node, \<^verbatim>\<open>continueOnFail()\<close>, the
  bus, the channel constant of gravity-server, \<^verbatim>\<open>JSON.parse\<close> and \<^verbatim>\<open>JSON.stringify\<close>, the
  \<open>n\<close>-th reading of the clock as \<^verbatim>\<open>Date.now()\<close> and as \<^verbatim>\<open>new Date().toISOString()\<close>, and
  the base-36 text of the \<open>n\<close>-th \<^verbatim>\<open>Math.random()\<close>. Console and UI messages are left out.
\<close>

record 'p bus_env =
  be_getInputData :: "INodeExecutionData list"
  be_parameters :: "nat \<Rightarrow> 'p"
  be_getCredentials :: "js_error + gravity_credentials"
  be_workflow_id :: "string option"
  be_node_id :: "string option"
  be_continueOnFail :: bool
  be_bus :: "publisher \<Rightarrow> string \<Rightarrow> gravity_message \<Rightarrow> js_error option"
  be_AI_RESULT_CHANNEL :: string
  be_JSON_parse :: "string \<Rightarrow> json option"
  be_JSON_stringify :: "json \<Rightarrow> string"
  be_Date_now :: "nat \<Rightarrow> nat"
  be_Date_toISOString :: "nat \<Rightarrow> string"
  be_Math_random36 :: "nat \<Rightarrow> string"

text \<open>\<^verbatim>\<open>Array.isArray(parsedData) ? parsedData : [parsedData]\<close>.\<close>

fun dataArray :: "json \<Rightarrow> json list" where
  "dataArray (JArray xs) = xs"
| "dataArray parsedData = [parsedData]"

section \<open>GravityOutput\<close>

record output_parameters =
  gp_conversationId :: string
  gp_chatId :: string
  gp_userId :: string
  gp_outputType :: string
  gp_advancedOptions :: "bool option"
  gp_state :: "string option"
  gp_textContent :: string
  gp_enableAudio :: "bool option"
  gp_jsonData :: string
  gp_jsonDataFieldName :: "string option"
  gp_imageUrl :: string
  gp_imageAlt :: "string option"
  gp_toolName :: string
  gp_actionType :: string
  gp_errorHandling :: "string option"

text \<open>The \<^verbatim>\<open>switch (outputType)\<close> of \<^verbatim>\<open>GravityOutput.execute\<close>.\<close>

definition GravityOutput_switch ::
  "output_parameters bus_env \<Rightarrow> publisher \<Rightarrow> output_parameters \<Rightarrow> base_event \<Rightarrow> node_state
     \<Rightarrow> js_error option \<times> node_state" where
  "GravityOutput_switch env pub ps baseEvent st =
     (let outputType = gp_outputType ps in
      if outputType = MessageType_TEXT then
        (let text = gp_textContent ps;
             enableAudio = getNodeParameter (gp_enableAudio ps) False;
             message = createText baseEvent text;
             message' =
               (if enableAudio then
                  message\<lparr>gm_voiceConfig := Some \<lparr>vc_enabled = True, vc_textField = ''text''\<rparr>\<rparr>
                else message)
         in publishEvent (be_bus env) pub (be_AI_RESULT_CHANNEL env) message' st)
      else if outputType = MessageType_JSON_DATA then
        (let jsonDataStr = gp_jsonData ps;
             jsonDataFieldName = getNodeParameter (gp_jsonDataFieldName ps) ''data''
         in case be_JSON_parse env jsonDataStr of
              None \<Rightarrow> (Some (NodeOperationError ''Invalid JSON data''), st)
            | Some parsedData \<Rightarrow>
                (let formattedData =
                       \<lparr>fd_dataType = jsonDataFieldName, fd_items = dataArray parsedData\<rparr>;
                     message = createJsonData baseEvent formattedData
                 in case publishEvent (be_bus env) pub (be_AI_RESULT_CHANNEL env) message st of
                      (Some e, st') \<Rightarrow> (Some (NodeOperationError ''Invalid JSON data''), st')
                    | (None, st') \<Rightarrow> (None, st')))
      else if outputType = MessageType_IMAGE_RESPONSE then
        (let url = gp_imageUrl ps;
             alt = getNodeParameter (gp_imageAlt ps) [];
             message = createImageResponse baseEvent url alt
         in publishEvent (be_bus env) pub (be_AI_RESULT_CHANNEL env) message st)
      else if outputType = MessageType_TOOL_OUTPUT then
        (let tool = gp_toolName ps;
             resultString = gp_jsonData ps
         in case be_JSON_parse env resultString of
              None \<Rightarrow> (Some (NodeOperationError ''Invalid JSON data for tool output''), st)
            | Some result \<Rightarrow>
                (let message = createToolOutput baseEvent tool result
                 in case publishEvent (be_bus env) pub (be_AI_RESULT_CHANNEL env) message st of
                      (Some e, st') \<Rightarrow>
                        (Some (NodeOperationError ''Invalid JSON data for tool output''), st')
                    | (None, st') \<Rightarrow> (None, st')))
      else if outputType = MessageType_ACTION_SUGGESTION then
        (let actionType = gp_actionType ps;
             payloadString = gp_jsonData ps
         in case be_JSON_parse env payloadString of
              None \<Rightarrow> (Some (NodeOperationError ''Invalid JSON data for action payload''), st)
            | Some payload \<Rightarrow>
                (let message = createActionSuggestion baseEvent actionType payload
                 in case publishEvent (be_bus env) pub (be_AI_RESULT_CHANNEL env) message st of
                      (Some e, st') \<Rightarrow>
                        (Some (NodeOperationError ''Invalid JSON data for action payload''), st')
                    | (None, st') \<Rightarrow> (None, st')))
      else (Some (NodeOperationError (''Unsupported output type: '' @ outputType)), st))"

text \<open>
  The base event of item \<open>itemIndex\<close>, from the parameters and the clock and random
  readings the state points at.
\<close>

definition GravityOutput_baseEvent ::
  "output_parameters bus_env \<Rightarrow> string \<Rightarrow> output_parameters \<Rightarrow> string \<Rightarrow> node_state \<Rightarrow> base_event" where
  "GravityOutput_baseEvent env providerId ps messageState st =
     \<lparr>ev_id = event_id (be_Date_now env (ns_ticks st)) (be_Math_random36 env (ns_draws st)),
      ev_chatId = gp_chatId ps,
      ev_conversationId = gp_conversationId ps,
      ev_userId = gp_userId ps,
      ev_providerId = providerId,
      ev_timestamp = be_Date_now env (ns_ticks st + 1),
      ev_state = messageState\<rparr>"

text \<open>
  The body of the \<^verbatim>\<open>try\<close> block for one item: \<open>Some e\<close> when it throws \<open>e\<close>, with the state
  reached by then.
\<close>

definition GravityOutput_try ::
  "output_parameters bus_env \<Rightarrow> INodeExecutionData \<Rightarrow> nat \<Rightarrow> node_state
     \<Rightarrow> js_error option \<times> node_state" where
  "GravityOutput_try env item itemIndex st =
     (case be_getCredentials env of
        Inl e \<Rightarrow> (Some e, st)
      | Inr credentials \<Rightarrow>
          (let providerId = nodeProviderId (be_workflow_id env) (be_node_id env);
               pub = \<lparr>pb_serverUrl = gc_serverUrl credentials, pb_apiKey = gc_apiKey credentials,
                      pb_providerId = providerId\<rparr>;
               ps = be_parameters env itemIndex;
               conversationId = gp_conversationId ps;
               chatId = gp_chatId ps;
               userId = gp_userId ps;
               outputType = gp_outputType ps;
               advancedOptions = getNodeParameter (gp_advancedOptions ps) False
           in if conversationId = [] \<or> chatId = [] \<or> userId = [] then
                (Some (NodeOperationError ''Required IDs missing''), st)
              else
                (let messageState =
                       (if advancedOptions then getNodeParameter (gp_state ps) ChatState_ACTIVE
                        else ChatState_ACTIVE);
                     baseEvent = GravityOutput_baseEvent env providerId ps messageState st;
                     st1 = st\<lparr>ns_ticks := ns_ticks st + 2, ns_draws := ns_draws st + 1\<rparr>
                 in case GravityOutput_switch env pub ps baseEvent st1 of
                      (Some e, st2) \<Rightarrow> (Some e, st2)
                    | (None, st2) \<Rightarrow>
                        (None,
                         st2\<lparr>ns_returnData :=
                               ns_returnData st2
                               @ [\<lparr>item_json =
                                     spread_with (item_json item)
                                       [(''success'', JBool True),
                                        (''outputType'', JString outputType),
                                        (''state'', JString messageState),
                                        (''timestamp'',
                                           JString (be_Date_toISOString env (ns_ticks st2))),
                                        (''conversationId'', JString conversationId),
                                        (''chatId'', JString chatId),
                                        (''userId'', JString userId)]\<rparr>],
                             ns_ticks := ns_ticks st2 + 1\<rparr>))))"

text \<open>The constant \<^verbatim>\<open>errorHandling\<close> of the \<^verbatim>\<open>catch\<close> block.\<close>

definition GravityOutput_errorHandling :: "output_parameters \<Rightarrow> string" where
  "GravityOutput_errorHandling ps =
     (let advancedOptions = getNodeParameter (gp_advancedOptions ps) False
      in if advancedOptions then getNodeParameter (gp_errorHandling ps) ''throw''
         else ''throw'')"

text \<open>One round of the loop: the \<^verbatim>\<open>try\<close> block and its \<^verbatim>\<open>catch\<close>.\<close>

definition GravityOutput_item ::
  "output_parameters bus_env \<Rightarrow> INodeExecutionData \<Rightarrow> nat \<Rightarrow> node_state
     \<Rightarrow> js_error option \<times> node_state" where
  "GravityOutput_item env item itemIndex st =
     (case GravityOutput_try env item itemIndex st of
        (None, st') \<Rightarrow> (None, st')
      | (Some error, st') \<Rightarrow>
          (let errorHandling = GravityOutput_errorHandling (be_parameters env itemIndex)
           in if errorHandling = ''continue'' then
                (None,
                 st'\<lparr>ns_returnData :=
                       ns_returnData st'
                       @ [\<lparr>item_json =
                             spread_with (item_json item)
                               [(''success'', JBool False),
                                (''error'',
                                   JString (if err_message error \<noteq> [] then err_message error
                                            else ''Unknown error in Gravity Output''))]\<rparr>]\<rparr>)
              else (Some error, st')))"

text \<open>The \<^verbatim>\<open>for\<close> loop over the items, from index \<open>itemIndex\<close> on.\<close>

fun GravityOutput_loop ::
  "output_parameters bus_env \<Rightarrow> INodeExecutionData list \<Rightarrow> nat \<Rightarrow> node_state
     \<Rightarrow> js_error option \<times> node_state" where
  "GravityOutput_loop env [] itemIndex st = (None, st)"
| "GravityOutput_loop env (item # rest) itemIndex st =
     (case GravityOutput_item env item itemIndex st of
        (Some e, st') \<Rightarrow> (Some e, st')
      | (None, st') \<Rightarrow> GravityOutput_loop env rest (itemIndex + 1) st')"

definition initial_state :: node_state where
  "initial_state = \<lparr>ns_returnData = [], ns_published = [], ns_ticks = 0, ns_draws = 0\<rparr>"

text \<open>
  \<^verbatim>\<open>GravityOutput.execute\<close>: the error it throws or the outputs it returns, and the
  envelopes the bus has accepted meanwhile.
\<close>

definition GravityOutput_execute ::
  "output_parameters bus_env
     \<Rightarrow> (js_error + INodeExecutionData list list) \<times> (string \<times> gravity_message) list" where
  "GravityOutput_execute env =
     (case GravityOutput_loop env (be_getInputData env) 0 initial_state of
        (Some e, st) \<Rightarrow> (Inl e, ns_published st)
      | (None, st) \<Rightarrow> (Inr [ns_returnData st], ns_published st))"

section \<open>GravityUpdate\<close>

record update_parameters =
  up_chatId :: string
  up_conversationId :: string
  up_userId :: string
  up_updateType :: string
  up_advancedOptions :: "bool option"
  up_state :: "string option"
  up_message :: string
  up_text :: string
  up_jsonData :: string
  up_jsonDataFieldName :: "string option"
  up_metadataKey :: string
  up_metadataValue :: string

definition GravityUpdate_baseEvent ::
  "update_parameters bus_env \<Rightarrow> string \<Rightarrow> update_parameters \<Rightarrow> string \<Rightarrow> node_state \<Rightarrow> base_event" where
  "GravityUpdate_baseEvent env providerId ps state st =
     \<lparr>ev_id = event_id (be_Date_now env (ns_ticks st)) (be_Math_random36 env (ns_draws st)),
      ev_chatId = up_chatId ps,
      ev_conversationId = up_conversationId ps,
      ev_userId = up_userId ps,
      ev_providerId = providerId,
      ev_timestamp = be_Date_now env (ns_ticks st + 1),
      ev_state = state\<rparr>"

text \<open>
  Pushing one success record on \<^verbatim>\<open>returnData\<close>; its \<^verbatim>\<open>timestamp\<close> is the next reading of
  the clock, its other keys are \<open>before\<close> and \<open>after\<close> the timestamp.
\<close>

definition push_success ::
  "update_parameters bus_env \<Rightarrow> (string \<times> json) list \<Rightarrow> (string \<times> json) list \<Rightarrow> node_state
     \<Rightarrow> node_state" where
  "push_success env before after st =
     st\<lparr>ns_returnData :=
          ns_returnData st
          @ [\<lparr>item_json =
                before @ [(''timestamp'', JString (be_Date_toISOString env (ns_ticks st)))] @ after\<rparr>],
        ns_ticks := ns_ticks st + 1\<rparr>"

text \<open>The \<^verbatim>\<open>switch (updateType)\<close> of \<^verbatim>\<open>GravityUpdate.execute\<close>.\<close>

definition GravityUpdate_switch ::
  "update_parameters bus_env \<Rightarrow> publisher \<Rightarrow> update_parameters \<Rightarrow> base_event \<Rightarrow> node_state
     \<Rightarrow> js_error option \<times> node_state" where
  "GravityUpdate_switch env pub ps baseEvent st =
     (let updateType = up_updateType ps;
          outputChannel = be_AI_RESULT_CHANNEL env in
      if updateType = MessageType_PROGRESS_UPDATE then
        (let message = up_message ps;
             progressMessage = createProgressUpdate baseEvent message
         in case publishEvent (be_bus env) pub outputChannel progressMessage st of
              (Some e, st') \<Rightarrow> (Some e, st')
            | (None, st') \<Rightarrow>
                (None,
                 push_success env
                   [(''success'', JBool True), (''updateType'', JString ''progressUpdate'')]
                   [(''message'', JString message)] st'))
      else if updateType = MessageType_MESSAGE_CHUNK then
        (let text = up_text ps;
             chunkMessage = createMessageChunk baseEvent text
         in case publishEvent (be_bus env) pub outputChannel chunkMessage st of
              (Some e, st') \<Rightarrow> (Some e, st')
            | (None, st') \<Rightarrow>
                (None,
                 push_success env
                   [(''success'', JBool True), (''updateType'', JString ''messageChunk'')]
                   [(''textPreview'',
                       JString (if length text > 30 then take 30 text @ ''...'' else text))] st'))
      else if updateType = MessageType_JSON_DATA then
        (let jsonDataStr = up_jsonData ps;
             jsonDataFieldName = getNodeParameter (up_jsonDataFieldName ps) ''calls''
         in case be_JSON_parse env jsonDataStr of
              None \<Rightarrow> (Some (NodeOperationError ''Invalid JSON data''), st)
            | Some parsedData \<Rightarrow>
                (let formattedData =
                       \<lparr>fd_dataType = jsonDataFieldName, fd_items = dataArray parsedData\<rparr>;
                     jsonMessage = createJsonData baseEvent formattedData
                 in case publishEvent (be_bus env) pub outputChannel jsonMessage st of
                      (Some e, st') \<Rightarrow> (Some (NodeOperationError ''Invalid JSON data''), st')
                    | (None, st') \<Rightarrow>
                        (None,
                         push_success env
                           [(''success'', JBool True), (''updateType'', JString ''jsonData'')]
                           [(''dataType'', JString jsonDataFieldName),
                            (''itemCount'', JNumber (of_nat (length (dataArray parsedData))))]
                           st')))
      else if updateType = MessageType_METADATA then
        (let key = up_metadataKey ps;
             val = up_metadataValue ps;
             metadataStr = be_JSON_stringify env (JObject [(key, JString val)]);
             metadataMessage = createMetadata baseEvent metadataStr
         in case publishEvent (be_bus env) pub outputChannel metadataMessage st of
              (Some e, st') \<Rightarrow> (Some e, st')
            | (None, st') \<Rightarrow>
                (None,
                 push_success env
                   [(''success'', JBool True), (''updateType'', JString ''metadata'')]
                   [(''key'', JString key), (''value'', JString val)] st'))
      else (Some (NodeOperationError (''Unsupported update type: '' @ updateType)), st))"

text \<open>The body of the inner \<^verbatim>\<open>try\<close> block for one item.\<close>

definition GravityUpdate_try ::
  "update_parameters bus_env \<Rightarrow> publisher \<Rightarrow> nat \<Rightarrow> node_state \<Rightarrow> js_error option \<times> node_state" where
  "GravityUpdate_try env pub itemIndex st =
     (let ps = be_parameters env itemIndex;
          advancedOptions = getNodeParameter (up_advancedOptions ps) False;
          state =
            (if advancedOptions then getNodeParameter (up_state ps) ChatState_ACTIVE
             else ChatState_ACTIVE);
          baseEvent = GravityUpdate_baseEvent env (pb_providerId pub) ps state st;
          st1 = st\<lparr>ns_ticks := ns_ticks st + 2, ns_draws := ns_draws st + 1\<rparr>
      in GravityUpdate_switch env pub ps baseEvent st1)"

text \<open>
  One round of the loop with its \<^verbatim>\<open>catch\<close>: a failure record when \<^verbatim>\<open>continueOnFail()\<close>,
  else the error, wrapped in a \<^verbatim>\<open>NodeOperationError\<close> unless it is one already.
\<close>

definition GravityUpdate_item ::
  "update_parameters bus_env \<Rightarrow> publisher \<Rightarrow> nat \<Rightarrow> node_state \<Rightarrow> js_error option \<times> node_state" where
  "GravityUpdate_item env pub itemIndex st =
     (case GravityUpdate_try env pub itemIndex st of
        (None, st') \<Rightarrow> (None, st')
      | (Some error, st') \<Rightarrow>
          if be_continueOnFail env then
            (None,
             st'\<lparr>ns_returnData :=
                   ns_returnData st'
                   @ [\<lparr>item_json =
                         [(''success'', JBool False), (''error'', JString (err_message error))]\<rparr>]\<rparr>)
          else if err_ctor error \<noteq> ''NodeOperationError'' then
            (Some (error\<lparr>err_ctor := ''NodeOperationError''\<rparr>), st')
          else (Some error, st'))"

fun GravityUpdate_loop ::
  "update_parameters bus_env \<Rightarrow> publisher \<Rightarrow> INodeExecutionData list \<Rightarrow> nat \<Rightarrow> node_state
     \<Rightarrow> js_error option \<times> node_state" where
  "GravityUpdate_loop env pub [] itemIndex st = (None, st)"
| "GravityUpdate_loop env pub (item # rest) itemIndex st =
     (case GravityUpdate_item env pub itemIndex st of
        (Some e, st') \<Rightarrow> (Some e, st')
      | (None, st') \<Rightarrow> GravityUpdate_loop env pub rest (itemIndex + 1) st')"

definition GravityUpdate_execute ::
  "update_parameters bus_env
     \<Rightarrow> (js_error + INodeExecutionData list list) \<times> (string \<times> gravity_message) list" where
  "GravityUpdate_execute env =
     (let items = be_getInputData env;
          providerId = nodeProviderId (be_workflow_id env) (be_node_id env)
      in case be_getCredentials env of
           Inl e \<Rightarrow> (Inl e, [])
         | Inr credentials \<Rightarrow>
             (let pub = \<lparr>pb_serverUrl = gc_serverUrl credentials,
                         pb_apiKey = gc_apiKey credentials, pb_providerId = providerId\<rparr>
              in case GravityUpdate_loop env pub items 0 initial_state of
                   (Some e, st) \<Rightarrow> (Inl e, ns_published st)
                 | (None, st) \<Rightarrow> (Inr [ns_returnData st], ns_published st)))"

section \<open>Notions used in the statements\<close>

text \<open>The fragments that count: those that are not the empty string.\<close>

definition nonempty :: "string list \<Rightarrow> string list" where
  "nonempty fs = filter (\<lambda>f. f \<noteq> []) fs"

text \<open>The fragment a Converse event carries: its delta text, or nothing.\<close>

definition claude_fragment :: "claude_chunk \<Rightarrow> string" where
  "claude_fragment chunk = (case claude_text chunk of None \<Rightarrow> [] | Some t \<Rightarrow> t)"

text \<open>
  One call \<^verbatim>\<open>onChunk(text, chunkIndex)\<close> of the optional callback, for a pair of index and
  text.
\<close>

definition call :: "(string \<Rightarrow> nat \<Rightarrow> 's \<Rightarrow> 's) option \<Rightarrow> 's \<Rightarrow> nat \<times> string \<Rightarrow> 's" where
  "call onChunk s c = (case onChunk of None \<Rightarrow> s | Some f \<Rightarrow> f (snd c) (fst c) s)"

section \<open>Concrete inputs\<close>

text \<open>A callback that writes down its arguments.\<close>

definition record_call :: "string \<Rightarrow> nat \<Rightarrow> (string \<times> nat) list \<Rightarrow> (string \<times> nat) list" where
  "record_call text chunkIndex calls = calls @ [(text, chunkIndex)]"

text \<open>The fragments \<open>Hel\<close>, \<open>lo\<close>, an empty one and \<open> world\<close>, as either provider streams them.\<close>

definition hello_openai_chunks :: "openai_chunk list" where
  "hello_openai_chunks =
     [OpenAIChunk [OpenAIChoice (Some (OpenAIDelta (Some ''Hel'')))],
      OpenAIChunk [OpenAIChoice (Some (OpenAIDelta (Some ''lo'')))],
      OpenAIChunk [OpenAIChoice (Some (OpenAIDelta (Some [])))],
      OpenAIChunk [],
      OpenAIChunk [OpenAIChoice (Some (OpenAIDelta (Some '' world'')))]]"

definition hello_claude_chunks :: "claude_chunk list" where
  "hello_claude_chunks =
     [ClaudeChunk None,
      ClaudeChunk (Some (ClaudeBlockDelta (Some (ClaudeDelta (Some ''Hel''))))),
      ClaudeChunk (Some (ClaudeBlockDelta (Some (ClaudeDelta (Some ''lo''))))),
      ClaudeChunk (Some (ClaudeBlockDelta (Some (ClaudeDelta (Some []))))),
      ClaudeChunk (Some (ClaudeBlockDelta (Some (ClaudeDelta (Some '' world'')))))]"

definition example_OpenAIConfig :: OpenAIConfig where
  "example_OpenAIConfig = \<lparr>oc_apiKey = ''k'', oc_organization = None, oc_baseURL = None\<rparr>"

definition example_OpenAIRequestOptions :: OpenAIRequestOptions where
  "example_OpenAIRequestOptions =
     \<lparr>oo_model = ''m1'', oo_systemPrompt = Some ''be brief'', oo_messages = [],
      oo_temperature = 7 / 10, oo_maxTokens = 1000, oo_stream = True\<rparr>"

definition example_BedrockConfig :: BedrockConfig where
  "example_BedrockConfig =
     \<lparr>bc_region = ''us-east-1'', bc_accessKeyId = ''id'', bc_secretAccessKey = ''secret''\<rparr>"

definition example_ClaudeRequestOptions :: ClaudeRequestOptions where
  "example_ClaudeRequestOptions =
     \<lparr>co_model = ''m1'', co_systemPrompt = Some ''be brief'', co_messages = [],
      co_temperature = 7 / 10, co_maxTokens = 1000, co_enableTools = False, co_mcpTools = [],
      co_enableAnyTool = Some False, co_toolChoice = None\<rparr>"

text \<open>A clock whose \<open>n\<close>-th reading prints as \<open>T\<close> and the number.\<close>

definition example_clock :: "nat \<Rightarrow> string" where
  "example_clock n = ''T'' @ decimal n"

text \<open>A stand-in for \<^verbatim>\<open>JSON.parse\<close> that knows two texts and throws on every other.\<close>

definition example_JSON_parse :: "string \<Rightarrow> json option" where
  "example_JSON_parse s =
     (if s = ''7'' then Some (JNumber 7)
      else if s = ''[1,2]'' then Some (JArray [JNumber 1, JNumber 2])
      else None)"

text \<open>The single fragment \<open>A\<close>, and the error of a stream that breaks.\<close>

definition A_openai_chunks :: "openai_chunk list" where
  "A_openai_chunks = [OpenAIChunk [OpenAIChoice (Some (OpenAIDelta (Some ''A'')))]]"

definition A_claude_chunks :: "claude_chunk list" where
  "A_claude_chunks = [ClaudeChunk (Some (ClaudeBlockDelta (Some (ClaudeDelta (Some ''A'')))))]"

definition boom :: js_error where
  "boom = \<lparr>err_ctor = ''Error'', err_message = ''boom'', err_stack = ''at stream''\<rparr>"

text \<open>
  Invocations of the two streaming nodes on model \<open>m1\<close> whose provider answers every
  request with the given stream; no parameter is an expression.
\<close>

definition example_openai_env :: "openai_chunk async_stream \<Rightarrow> openai_env" where
  "example_openai_env stream =
     \<lparr>oe_resolveParameters =
        (\<lambda>items itemIndex.
           \<lparr>op_model = Some ''m1'', op_systemPrompt = None, op_temperature = None,
            op_maxTokens = None, op_message = Some (JString ''hi''), op_baseURL = None\<rparr>),
      oe_getCredentials = Inr \<lparr>cr_apiKey = ''k'', cr_organizationId = None\<rparr>,
      oe_getInputData = [],
      oe_client = (\<lambda>config params. Inr stream),
      oe_JSON_parse = example_JSON_parse,
      oe_Date_toISOString = example_clock\<rparr>"

definition example_claude_env ::
  "claude_advancedOptions option \<Rightarrow> claude_chunk async_stream \<Rightarrow> claude_env" where
  "example_claude_env advancedOptions stream =
     \<lparr>ce_parameters =
        \<lparr>cl_model = Some ''m1'', cl_systemPrompt = None, cl_temperature = None,
         cl_maxTokens = None, cl_message = Some (JString ''hi''), cl_enableAnyTool = None,
         cl_toolChoice = None, cl_advancedOptions = advancedOptions\<rparr>,
      ce_getInputData = (\<lambda>i. Inr None),
      ce_getCredentials = Inr \<lparr>aws_accessKeyId = ''id'', aws_secretAccessKey = ''secret''\<rparr>,
      ce_AWS_REGION = None,
      ce_client = (\<lambda>config input. Inr (Some stream)),
      ce_JSON_parse = example_JSON_parse,
      ce_Date_toISOString = example_clock\<rparr>"

text \<open>
  An invocation of GravityOutput or GravityUpdate on one input item, with the same
  parameters \<open>ps\<close> at every index, credentials, a bus that accepts every envelope, a clock
  that starts at 1000 ms and a constant random number.
\<close>

definition example_bus_env :: "'p \<Rightarrow> 'p bus_env" where
  "example_bus_env ps =
     \<lparr>be_getInputData = [\<lparr>item_json = [(''n'', JNumber 1)]\<rparr>],
      be_parameters = (\<lambda>itemIndex. ps),
      be_getCredentials = Inr \<lparr>gc_serverUrl = ''bus.example'', gc_apiKey = ''key''\<rparr>,
      be_workflow_id = Some ''w1'',
      be_node_id = Some ''n1'',
      be_continueOnFail = False,
      be_bus = (\<lambda>pub channel message. None),
      be_AI_RESULT_CHANNEL = ''results'',
      be_JSON_parse = example_JSON_parse,
      be_JSON_stringify = (\<lambda>v. ''{}''),
      be_Date_now = (\<lambda>n. 1000 + n),
      be_Date_toISOString = example_clock,
      be_Math_random36 = (\<lambda>n. ''0.abcdefghijk'')\<rparr>"

definition example_output_parameters :: "string \<Rightarrow> string \<Rightarrow> string \<Rightarrow> output_parameters" where
  "example_output_parameters chatId outputType jsonData =
     \<lparr>gp_conversationId = ''c1'', gp_chatId = chatId, gp_userId = ''u1'',
      gp_outputType = outputType, gp_advancedOptions = None, gp_state = None,
      gp_textContent = ''hello'', gp_enableAudio = None, gp_jsonData = jsonData,
      gp_jsonDataFieldName = None, gp_imageUrl = [], gp_imageAlt = None,
      gp_toolName = ''search'', gp_actionType = [], gp_errorHandling = None\<rparr>"

definition example_update_parameters :: "string \<Rightarrow> string \<Rightarrow> string \<Rightarrow> update_parameters" where
  "example_update_parameters chatId updateType jsonData =
     \<lparr>up_chatId = chatId, up_conversationId = ''c1'', up_userId = ''u1'',
      up_updateType = updateType, up_advancedOptions = None, up_state = None,
      up_message = ''working'', up_text = [], up_jsonData = jsonData,
      up_jsonDataFieldName = None, up_metadataKey = [], up_metadataValue = []\<rparr>"

text \<open>The publisher and the base event these invocations build for their first item.\<close>

definition example_publisher :: publisher where
  "example_publisher =
     \<lparr>pb_serverUrl = ''bus.example'', pb_apiKey = ''key'', pb_providerId = ''n8n:w1:n1''\<rparr>"

definition example_base_event :: "string \<Rightarrow> base_event" where
  "example_base_event chatId =
     \<lparr>ev_id = ''1000-abcdefghi'', ev_chatId = chatId, ev_conversationId = ''c1'',
      ev_userId = ''u1'', ev_providerId = ''n8n:w1:n1'', ev_timestamp = 1001,
      ev_state = ''active''\<rparr>"

text \<open>
  An invocation of GravityOpenAI whose Message parameter is an expression for the field
  \<open>message\<close> of the item at the index, as \<^verbatim>\<open>={{ $json.message }}\<close> is; the provider answers
  every request with the fragment \<open>A\<close>. \<open>expression_result m\<close> is what it returns when
  that field of the first item is the text \<open>m\<close>.
\<close>

definition expression_openai_env :: "INodeExecutionData list \<Rightarrow> openai_env" where
  "expression_openai_env items =
     \<lparr>oe_resolveParameters =
        (\<lambda>input itemIndex.
           \<lparr>op_model = Some ''m1'', op_systemPrompt = None, op_temperature = None,
            op_maxTokens = None,
            op_message =
              (if itemIndex < length input
               then map_of (item_json (input ! itemIndex)) ''message'' else None),
            op_baseURL = None\<rparr>),
      oe_getCredentials = Inr \<lparr>cr_apiKey = ''k'', cr_organizationId = None\<rparr>,
      oe_getInputData = items,
      oe_client = (\<lambda>config params. Inr (A_openai_chunks, None)),
      oe_JSON_parse = example_JSON_parse,
      oe_Date_toISOString = example_clock\<rparr>"

definition expression_result :: "string \<Rightarrow> node_item list list" where
  "expression_result message =
     [[StreamChunk \<lparr>chunk_model = ''m1'', chunk_text = ''A'', chunk_chunkIndex = 0,
         chunk_timestamp = ''T0'', chunk_state = ''responding'', chunk_progressMessage = None\<rparr>,
       StreamChunk \<lparr>chunk_model = ''m1'', chunk_text = '' '', chunk_chunkIndex = 1,
         chunk_timestamp = ''T1'', chunk_state = ''complete'', chunk_progressMessage = None\<rparr>],
      [FinalResponse
         \<lparr>fr_model = ''m1'', fr_response = ''A'', fr_chunkCount = 1,
          fr_messages = [JObject [(''role'', JString ''user''), (''content'', JString message)]],
          fr_updatedMessages =
            [JObject [(''role'', JString ''user''), (''content'', JString message)],
             JObject [(''role'', JString ''assistant''), (''content'', JString ''A'')]],
          fr_metadata =
            \<lparr>md_timestamp = ''T2'', md_model = ''m1'', md_temperature = 7 / 10,
             md_maxTokens = 1000, md_totalCharacters = 1\<rparr>\<rparr>]]"

section \<open>The streaming loops\<close>

lemma openai_for_await_run:
  "openai_for_await onChunk chunks (full, cnt, s) =
     (full @ concat (nonempty (map openai_content chunks)),
      cnt + length (nonempty (map openai_content chunks)),
      foldl (call onChunk) s (enumerate cnt (nonempty (map openai_content chunks))))"
proof (induction chunks arbitrary: full cnt s)
  case Nil
  show ?case by (simp add: nonempty_def)
next
  case (Cons chunk rest)
  show ?case
  proof (cases "openai_content chunk = []")
    case True
    then show ?thesis using Cons.IH [of full cnt s] by (simp add: nonempty_def)
  next
    case False
    then have "openai_for_await onChunk (chunk # rest) (full, cnt, s) =
        openai_for_await onChunk rest
          (full @ openai_content chunk, Suc cnt, call onChunk s (cnt, openai_content chunk))"
      by (cases onChunk) (simp_all add: call_def Let_def)
    with False show ?thesis
      by (simp add: Cons.IH nonempty_def)
  qed
qed

lemma claude_for_await_run:
  "claude_for_await onChunk chunks (full, cnt, s) =
     (full @ concat (nonempty (map claude_fragment chunks)),
      cnt + length (nonempty (map claude_fragment chunks)),
      foldl (call onChunk) s (enumerate cnt (nonempty (map claude_fragment chunks))))"
proof (induction chunks arbitrary: full cnt s)
  case Nil
  show ?case by (simp add: nonempty_def)
next
  case (Cons chunk rest)
  show ?case
  proof (cases "claude_fragment chunk = []")
    case True
    then show ?thesis using Cons.IH [of full cnt s]
      by (auto simp add: nonempty_def claude_fragment_def split: option.splits)
  next
    case False
    then obtain t where t: "claude_text chunk = Some t" "t \<noteq> []"
      by (auto simp add: claude_fragment_def split: option.splits)
    then have "claude_for_await onChunk (chunk # rest) (full, cnt, s) =
        claude_for_await onChunk rest (full @ t, Suc cnt, call onChunk s (cnt, t))"
      by (cases onChunk) (simp_all add: call_def Let_def)
    with t show ?thesis
      by (simp add: Cons.IH nonempty_def claude_fragment_def)
  qed
qed

lemma foldl_OpenAI_onChunk:
  "foldl (call (Some (GravityOpenAI_onChunk clock model))) (out, n) (enumerate n fs) =
     (out @ map (\<lambda>(i, f). OpenAI_formatStreamChunk (clock i) model f i None None) (enumerate n fs),
      n + length fs)"
  by (induction fs arbitrary: out n) (simp_all add: call_def GravityOpenAI_onChunk_def)

lemma foldl_Claude_onChunk:
  "foldl (call (Some (GravityClaude_onChunk clock model ao))) (out, n) (enumerate n fs) =
     (out @ map (\<lambda>(i, f). Bedrock_formatStreamChunk (clock i) model f i) (enumerate n fs),
      n + length fs)"
  by (induction fs arbitrary: out n) (simp_all add: call_def GravityClaude_onChunk_def)

lemma sendOpenAIRequest_run:
  assumes "client config (openai_createParams options) = Inr (chunks, failure)"
  shows "sendOpenAIRequest client config options onChunk s =
           ((case failure of
               Some e \<Rightarrow> Inl e
             | None \<Rightarrow>
                 Inr \<lparr>res_fullResponse = concat (nonempty (map openai_content chunks)),
                      res_chunkCount = length (nonempty (map openai_content chunks))\<rparr>),
            foldl (call onChunk) s (enumerate 0 (nonempty (map openai_content chunks))))"
  using assms
  by (simp add: sendOpenAIRequest_def openai_for_await_run split: option.splits)

lemma sendClaudeRequest_run:
  assumes "client config (claude_commandInput options) = Inr (Some (chunks, failure))"
  shows "sendClaudeRequest client config options onChunk s =
           ((case failure of
               Some e \<Rightarrow> Inl e
             | None \<Rightarrow>
                 Inr \<lparr>res_fullResponse = concat (nonempty (map claude_fragment chunks)),
                      res_chunkCount = length (nonempty (map claude_fragment chunks))\<rparr>),
            foldl (call onChunk) s (enumerate 0 (nonempty (map claude_fragment chunks))))"
  using assms
  by (simp add: sendClaudeRequest_def claude_for_await_run split: option.splits)

text \<open>
  C4. Whatever the provider streams to \<^verbatim>\<open>sendOpenAIRequest\<close> or \<^verbatim>\<open>sendClaudeRequest\<close>, the
  callback is called once for each non-empty fragment and for no other, in arrival order,
  with the fragment as text and with the indices 0, 1, 2, ...: the index of a call is the
  count before its increment. When the stream ends normally the returned count is the
  number of non-empty fragments, so each of them has raised it by one and an empty fragment
  has not. With the callbacks that \<^verbatim>\<open>GravityOpenAI.execute\<close> and \<^verbatim>\<open>GravityClaude.execute\<close>
  pass, starting from an empty \<^verbatim>\<open>streamOutput\<close>, the calls leave exactly one chunk record
  for each non-empty fragment, in arrival order: its text is the fragment and its
  \<^verbatim>\<open>chunkIndex\<close> is the position of the fragment among the non-empty ones, counted from 0.
\<close>

theorem fragments_counted_and_indexed:
  assumes "oclient oconfig (openai_createParams ooptions) = Inr (ochunks, ofailure)"
      and "cclient cconfig (claude_commandInput coptions) = Inr (Some (cchunks, cfailure))"
  shows "snd (sendOpenAIRequest oclient oconfig ooptions onChunk s) =
           foldl (call onChunk) s (enumerate 0 (nonempty (map openai_content ochunks)))
         \<and> (ofailure = None \<longrightarrow>
              map_sum id res_chunkCount (fst (sendOpenAIRequest oclient oconfig ooptions onChunk s)) =
                Inr (length (nonempty (map openai_content ochunks))))
         \<and> snd (sendClaudeRequest cclient cconfig coptions onChunk s) =
             foldl (call onChunk) s (enumerate 0 (nonempty (map claude_fragment cchunks)))
         \<and> (cfailure = None \<longrightarrow>
              map_sum id res_chunkCount (fst (sendClaudeRequest cclient cconfig coptions onChunk s)) =
                Inr (length (nonempty (map claude_fragment cchunks))))
         \<and> snd (sendOpenAIRequest oclient oconfig ooptions
                  (Some (GravityOpenAI_onChunk clock model)) ([], 0)) =
             (map (\<lambda>(i, f).
                     StreamChunk
                       \<lparr>chunk_model = model, chunk_text = f, chunk_chunkIndex = i,
                        chunk_timestamp = clock i, chunk_state = ChatState_RESPONDING,
                        chunk_progressMessage = None\<rparr>)
                (enumerate 0 (nonempty (map openai_content ochunks))),
              length (nonempty (map openai_content ochunks)))
         \<and> snd (sendClaudeRequest cclient cconfig coptions
                  (Some (GravityClaude_onChunk clock model advancedOptions)) ([], 0)) =
             (map (\<lambda>(i, f).
                     StreamChunk
                       \<lparr>chunk_model = model, chunk_text = f, chunk_chunkIndex = i,
                        chunk_timestamp = clock i, chunk_state = ChatState_RESPONDING,
                        chunk_progressMessage = None\<rparr>)
                (enumerate 0 (nonempty (map claude_fragment cchunks))),
              length (nonempty (map claude_fragment cchunks)))"
  by (simp add: sendOpenAIRequest_run [of oclient oconfig ooptions ochunks ofailure, OF assms(1)]
      sendClaudeRequest_run [of cclient cconfig coptions cchunks cfailure, OF assms(2)]
      foldl_OpenAI_onChunk [of _ _ "[]" 0, simplified]
      foldl_Claude_onChunk [of _ _ _ "[]" 0, simplified]
      OpenAI_formatStreamChunk_def Bedrock_formatStreamChunk_def)

theorem fragments_counted_and_indexed_witness:
  "snd (sendOpenAIRequest (\<lambda>config params. Inr (hello_openai_chunks, None)) example_OpenAIConfig
          example_OpenAIRequestOptions (Some record_call) []) =
     [(''Hel'', 0), (''lo'', 1), ('' world'', 2)]
   \<and> map_sum id res_chunkCount
        (fst (sendOpenAIRequest (\<lambda>config params. Inr (hello_openai_chunks, None)) example_OpenAIConfig
                example_OpenAIRequestOptions (Some record_call) [])) = Inr 3
   \<and> snd (sendClaudeRequest (\<lambda>config input. Inr (Some (hello_claude_chunks, None)))
            example_BedrockConfig example_ClaudeRequestOptions (Some record_call) []) =
       [(''Hel'', 0), (''lo'', 1), ('' world'', 2)]
   \<and> map_sum id res_chunkCount
        (fst (sendClaudeRequest (\<lambda>config input. Inr (Some (hello_claude_chunks, None)))
                example_BedrockConfig example_ClaudeRequestOptions (Some record_call) [])) = Inr 3
   \<and> snd (sendOpenAIRequest (\<lambda>config params. Inr (hello_openai_chunks, None)) example_OpenAIConfig
            example_OpenAIRequestOptions (Some (GravityOpenAI_onChunk example_clock ''m1'')) ([], 0)) =
       ([StreamChunk \<lparr>chunk_model = ''m1'', chunk_text = ''Hel'', chunk_chunkIndex = 0,
           chunk_timestamp = ''T0'', chunk_state = ''responding'', chunk_progressMessage = None\<rparr>,
         StreamChunk \<lparr>chunk_model = ''m1'', chunk_text = ''lo'', chunk_chunkIndex = 1,
           chunk_timestamp = ''T1'', chunk_state = ''responding'', chunk_progressMessage = None\<rparr>,
         StreamChunk \<lparr>chunk_model = ''m1'', chunk_text = '' world'', chunk_chunkIndex = 2,
           chunk_timestamp = ''T2'', chunk_state = ''responding'', chunk_progressMessage = None\<rparr>],
        3)
   \<and> snd (sendClaudeRequest (\<lambda>config input. Inr (Some (hello_claude_chunks, None)))
            example_BedrockConfig example_ClaudeRequestOptions
            (Some (GravityClaude_onChunk example_clock ''m1''
                     \<lparr>ao_state = None, ao_progressMessage = None\<rparr>)) ([], 0)) =
       ([StreamChunk \<lparr>chunk_model = ''m1'', chunk_text = ''Hel'', chunk_chunkIndex = 0,
           chunk_timestamp = ''T0'', chunk_state = ''responding'', chunk_progressMessage = None\<rparr>,
         StreamChunk \<lparr>chunk_model = ''m1'', chunk_text = ''lo'', chunk_chunkIndex = 1,
           chunk_timestamp = ''T1'', chunk_state = ''responding'', chunk_progressMessage = None\<rparr>,
         StreamChunk \<lparr>chunk_model = ''m1'', chunk_text = '' world'', chunk_chunkIndex = 2,
           chunk_timestamp = ''T2'', chunk_state = ''responding'', chunk_progressMessage = None\<rparr>],
        3)"
proof -
  note inst = fragments_counted_and_indexed
    [of "\<lambda>config params. Inr (hello_openai_chunks, None)" example_OpenAIConfig
        example_OpenAIRequestOptions hello_openai_chunks None
        "\<lambda>config input. Inr (Some (hello_claude_chunks, None))" example_BedrockConfig
        example_ClaudeRequestOptions hello_claude_chunks None]
  show ?thesis
    using inst [of "Some record_call" "[]" example_clock "''m1''"
                   "\<lparr>ao_state = None, ao_progressMessage = None\<rparr>"]
    by (simp add: hello_openai_chunks_def hello_claude_chunks_def nonempty_def claude_fragment_def
        call_def record_call_def enumerate_eq_zip upt_rec example_clock_def decimal.simps
        ChatState_RESPONDING_def)
qed

section \<open>The streaming nodes\<close>

lemmas example_simps =
  oe_parameters_def example_clock_def example_openai_env_def example_claude_env_def A_openai_chunks_def
  A_claude_chunks_def nonempty_def claude_fragment_def enumerate_eq_zip upt_rec decimal.simps
  getNodeParameter_def

lemma GravityOpenAI_execute_run:
  assumes "oe_getCredentials env = Inr creds"
      and "oe_client env (GravityOpenAI_openAIConfig env creds)
             (openai_createParams (GravityOpenAI_requestOptions env)) = Inr (chunks, failure)"
  shows "GravityOpenAI_execute env =
           (let fs = nonempty (map openai_content chunks);
                clock = oe_Date_toISOString env;
                options = GravityOpenAI_requestOptions env
            in case failure of
                 Some e \<Rightarrow> GravityOpenAI_catch (clock (length fs)) e
               | None \<Rightarrow>
                   [map (\<lambda>(i, f). OpenAI_formatStreamChunk (clock i) (oo_model options) f i None None)
                      (enumerate 0 fs)
                    @ [OpenAI_createCompletionChunk (clock (length fs)) (oo_model options)
                         (length fs) None None],
                    [FinalResponse
                       (OpenAI_createFinalResponseObject (clock (length fs + 1)) (oo_model options)
                          (concat fs) (length fs) (oo_messages options) (oo_temperature options)
                          (oo_maxTokens options))]])"
  unfolding GravityOpenAI_execute_def
  by (simp add: assms(1) Let_def foldl_OpenAI_onChunk [of _ _ "[]" 0, simplified]
      sendOpenAIRequest_run [of "oe_client env" "GravityOpenAI_openAIConfig env creds"
        "GravityOpenAI_requestOptions env" chunks failure, OF assms(2)]
      split: option.splits)

lemma GravityClaude_execute_run:
  assumes "ce_getInputData env 1 = Inr got"
      and "ce_getCredentials env = Inr creds"
      and "ce_client env (GravityClaude_bedrockConfig env creds)
             (claude_commandInput
                (GravityClaude_requestOptions env (case got of None \<Rightarrow> [] | Some xs \<Rightarrow> xs))) =
           Inr (Some (chunks, failure))"
  shows "GravityClaude_execute env =
           (let fs = nonempty (map claude_fragment chunks);
                clock = ce_Date_toISOString env;
                options = GravityClaude_requestOptions env (case got of None \<Rightarrow> [] | Some xs \<Rightarrow> xs)
            in case failure of
                 Some e \<Rightarrow> GravityClaude_catch (clock (length fs)) e
               | None \<Rightarrow>
                   [map (\<lambda>(i, f). Bedrock_formatStreamChunk (clock i) (co_model options) f i)
                      (enumerate 0 fs)
                    @ [Bedrock_createCompletionChunk (clock (length fs)) (co_model options) (length fs)],
                    [FinalResponse
                       (Bedrock_createFinalResponseObject (clock (length fs + 1)) (co_model options)
                          (concat fs) (length fs) (co_messages options) (co_temperature options)
                          (co_maxTokens options))],
                    [formatMcpOutput (clock (length fs + 2)) (concat fs) (co_model options)
                       (co_temperature options) (co_maxTokens options) True]])"
proof -
  let ?options = "GravityClaude_requestOptions env (case got of None \<Rightarrow> [] | Some xs \<Rightarrow> xs)"
  let ?fs = "nonempty (map claude_fragment chunks)"
  have send: "sendClaudeRequest (ce_client env) (GravityClaude_bedrockConfig env creds) ?options
                (Some (GravityClaude_onChunk (ce_Date_toISOString env) (co_model ?options) ao)) ([], 0) =
              ((case failure of
                  Some e \<Rightarrow> Inl e
                | None \<Rightarrow> Inr \<lparr>res_fullResponse = concat ?fs, res_chunkCount = length ?fs\<rparr>),
               (map (\<lambda>(i, f). Bedrock_formatStreamChunk (ce_Date_toISOString env i) (co_model ?options) f i)
                  (enumerate 0 ?fs),
                length ?fs))" for ao
    by (simp add: sendClaudeRequest_run [of "ce_client env" "GravityClaude_bedrockConfig env creds"
          ?options chunks failure, OF assms(3)]
        foldl_Claude_onChunk [of "ce_Date_toISOString env" "co_model ?options" ao "[]" 0, simplified])
  show ?thesis
    unfolding GravityClaude_execute_def
    by (cases failure) (simp_all add: assms(1) [unfolded One_nat_def] assms(2) send Let_def)
qed

text \<open>
  C5. When credentials are there and the provider's stream ends normally, the Stream output
  of \<^verbatim>\<open>GravityOpenAI.execute\<close> and of \<^verbatim>\<open>GravityClaude.execute\<close> is the chunk records of
  the non-empty fragments followed by exactly one completion record: its text is the single
  space, its index is the final fragment count, and its state is \<^verbatim>\<open>ChatState.COMPLETE\<close>
  (neither call gives an override that is received).
\<close>

theorem completion_record_appended:
  assumes "oe_getCredentials oenv = Inr ocreds"
      and "oe_client oenv (GravityOpenAI_openAIConfig oenv ocreds)
             (openai_createParams (GravityOpenAI_requestOptions oenv)) = Inr (ochunks, None)"
      and "ce_getInputData cenv 1 = Inr got"
      and "ce_getCredentials cenv = Inr ccreds"
      and "ce_client cenv (GravityClaude_bedrockConfig cenv ccreds)
             (claude_commandInput
                (GravityClaude_requestOptions cenv (case got of None \<Rightarrow> [] | Some xs \<Rightarrow> xs))) =
           Inr (Some (cchunks, None))"
  shows "hd (GravityOpenAI_execute oenv) =
           map (\<lambda>(i, f).
                  OpenAI_formatStreamChunk (oe_Date_toISOString oenv i)
                    (getNodeParameter (op_model (oe_parameters oenv)) []) f i None None)
             (enumerate 0 (nonempty (map openai_content ochunks)))
           @ [StreamChunk
                \<lparr>chunk_model = getNodeParameter (op_model (oe_parameters oenv)) [],
                 chunk_text = '' '',
                 chunk_chunkIndex = length (nonempty (map openai_content ochunks)),
                 chunk_timestamp =
                   oe_Date_toISOString oenv (length (nonempty (map openai_content ochunks))),
                 chunk_state = ChatState_COMPLETE,
                 chunk_progressMessage = None\<rparr>]
         \<and> hd (GravityClaude_execute cenv) =
             map (\<lambda>(i, f).
                    Bedrock_formatStreamChunk (ce_Date_toISOString cenv i)
                      (getNodeParameter (cl_model (ce_parameters cenv)) []) f i)
               (enumerate 0 (nonempty (map claude_fragment cchunks)))
             @ [StreamChunk
                  \<lparr>chunk_model = getNodeParameter (cl_model (ce_parameters cenv)) [],
                   chunk_text = '' '',
                   chunk_chunkIndex = length (nonempty (map claude_fragment cchunks)),
                   chunk_timestamp =
                     ce_Date_toISOString cenv (length (nonempty (map claude_fragment cchunks))),
                   chunk_state = ChatState_COMPLETE,
                   chunk_progressMessage = None\<rparr>]"
proof -
  have "oo_model (GravityOpenAI_requestOptions oenv) =
          getNodeParameter (op_model (oe_parameters oenv)) []"
    by (simp add: GravityOpenAI_requestOptions_def Let_def)
  moreover have "co_model (GravityClaude_requestOptions cenv xs) =
          getNodeParameter (cl_model (ce_parameters cenv)) []" for xs
    by (simp add: GravityClaude_requestOptions_def Let_def)
  ultimately show ?thesis
    by (simp add: GravityOpenAI_execute_run [OF assms(1,2)]
        GravityClaude_execute_run [OF assms(3,4,5)]
        OpenAI_createCompletionChunk_def Bedrock_createCompletionChunk_def Let_def)
qed

theorem completion_record_appended_witness:
  "hd (GravityOpenAI_execute (example_openai_env (hello_openai_chunks, None))) =
     [StreamChunk \<lparr>chunk_model = ''m1'', chunk_text = ''Hel'', chunk_chunkIndex = 0,
        chunk_timestamp = ''T0'', chunk_state = ''responding'', chunk_progressMessage = None\<rparr>,
      StreamChunk \<lparr>chunk_model = ''m1'', chunk_text = ''lo'', chunk_chunkIndex = 1,
        chunk_timestamp = ''T1'', chunk_state = ''responding'', chunk_progressMessage = None\<rparr>,
      StreamChunk \<lparr>chunk_model = ''m1'', chunk_text = '' world'', chunk_chunkIndex = 2,
        chunk_timestamp = ''T2'', chunk_state = ''responding'', chunk_progressMessage = None\<rparr>,
      StreamChunk \<lparr>chunk_model = ''m1'', chunk_text = '' '', chunk_chunkIndex = 3,
        chunk_timestamp = ''T3'', chunk_state = ''complete'', chunk_progressMessage = None\<rparr>]
   \<and> hd (GravityClaude_execute (example_claude_env None (A_claude_chunks, None))) =
     [StreamChunk \<lparr>chunk_model = ''m1'', chunk_text = ''A'', chunk_chunkIndex = 0,
        chunk_timestamp = ''T0'', chunk_state = ''responding'', chunk_progressMessage = None\<rparr>,
      StreamChunk \<lparr>chunk_model = ''m1'', chunk_text = '' '', chunk_chunkIndex = 1,
        chunk_timestamp = ''T1'', chunk_state = ''complete'', chunk_progressMessage = None\<rparr>]"
  using completion_record_appended
    [of "example_openai_env (hello_openai_chunks, None)"
        "\<lparr>cr_apiKey = ''k'', cr_organizationId = None\<rparr>" hello_openai_chunks
        "example_claude_env None (A_claude_chunks, None)" None
        "\<lparr>aws_accessKeyId = ''id'', aws_secretAccessKey = ''secret''\<rparr>" A_claude_chunks]
  by (simp add: example_simps hello_openai_chunks_def OpenAI_formatStreamChunk_def
      Bedrock_formatStreamChunk_def ChatState_RESPONDING_def ChatState_COMPLETE_def)

text \<open>
  C6. When the stream ends normally, the full response \<^verbatim>\<open>sendOpenAIRequest\<close> and
  \<^verbatim>\<open>sendClaudeRequest\<close> return is the non-empty fragments joined in arrival order and
  nothing else: the single space of the completion record is not part of it.
\<close>

theorem fullResponse_is_concatenation:
  assumes "oclient oconfig (openai_createParams ooptions) = Inr (ochunks, None)"
      and "cclient cconfig (claude_commandInput coptions) = Inr (Some (cchunks, None))"
  shows "map_sum id res_fullResponse (fst (sendOpenAIRequest oclient oconfig ooptions onChunk s)) =
           Inr (concat (nonempty (map openai_content ochunks)))
         \<and> map_sum id res_fullResponse (fst (sendClaudeRequest cclient cconfig coptions onChunk s)) =
             Inr (concat (nonempty (map claude_fragment cchunks)))"
  by (simp add: sendOpenAIRequest_run [of oclient oconfig ooptions ochunks None, OF assms(1)]
      sendClaudeRequest_run [of cclient cconfig coptions cchunks None, OF assms(2)])

theorem fullResponse_is_concatenation_witness:
  "map_sum id res_fullResponse
     (fst (sendOpenAIRequest (\<lambda>config params. Inr (hello_openai_chunks, None)) example_OpenAIConfig
             example_OpenAIRequestOptions (Some record_call) [])) = Inr ''Hello world''
   \<and> map_sum id res_fullResponse
       (fst (sendClaudeRequest (\<lambda>config input. Inr (Some (hello_claude_chunks, None)))
               example_BedrockConfig example_ClaudeRequestOptions (Some record_call) [])) =
       Inr ''Hello world''"
  using fullResponse_is_concatenation
    [of "\<lambda>config params. Inr (hello_openai_chunks, None)" example_OpenAIConfig
        example_OpenAIRequestOptions hello_openai_chunks
        "\<lambda>config input. Inr (Some (hello_claude_chunks, None))" example_BedrockConfig
        example_ClaudeRequestOptions hello_claude_chunks "Some record_call" "[]"]
  by (simp add: hello_openai_chunks_def hello_claude_chunks_def nonempty_def claude_fragment_def)

text \<open>
  C3, as stated, fails. A stream that delivers the fragment \<open>A\<close> and then breaks has made
  \<^verbatim>\<open>sendOpenAIRequest\<close> push the chunk record of \<open>A\<close>; still \<^verbatim>\<open>GravityOpenAI.execute\<close>
  returns the error record alone on both outputs, and the chunk record is on neither.
\<close>

theorem partial_chunks_discarded_on_failure:
  "snd (sendOpenAIRequest (oe_client (example_openai_env (A_openai_chunks, Some boom)))
          (GravityOpenAI_openAIConfig (example_openai_env (A_openai_chunks, Some boom))
             \<lparr>cr_apiKey = ''k'', cr_organizationId = None\<rparr>)
          (GravityOpenAI_requestOptions (example_openai_env (A_openai_chunks, Some boom)))
          (Some (GravityOpenAI_onChunk example_clock ''m1'')) ([], 0)) =
     ([StreamChunk \<lparr>chunk_model = ''m1'', chunk_text = ''A'', chunk_chunkIndex = 0,
         chunk_timestamp = ''T0'', chunk_state = ''responding'', chunk_progressMessage = None\<rparr>], 1)
   \<and> GravityOpenAI_execute (example_openai_env (A_openai_chunks, Some boom)) =
     [[ErrorResponse \<lparr>er_error = True, er_message = ''boom'', er_stack = ''at stream'',
         er_timestamp = ''T1''\<rparr>],
      [ErrorResponse \<lparr>er_error = True, er_message = ''boom'', er_stack = ''at stream'',
         er_timestamp = ''T1''\<rparr>]]
   \<and> StreamChunk \<lparr>chunk_model = ''m1'', chunk_text = ''A'', chunk_chunkIndex = 0,
         chunk_timestamp = ''T0'', chunk_state = ''responding'', chunk_progressMessage = None\<rparr>
       \<notin> set (concat (GravityOpenAI_execute (example_openai_env (A_openai_chunks, Some boom))))"
proof -
  have run: "GravityOpenAI_execute (example_openai_env (A_openai_chunks, Some boom)) =
     [[ErrorResponse \<lparr>er_error = True, er_message = ''boom'', er_stack = ''at stream'',
         er_timestamp = ''T1''\<rparr>],
      [ErrorResponse \<lparr>er_error = True, er_message = ''boom'', er_stack = ''at stream'',
         er_timestamp = ''T1''\<rparr>]]"
    using GravityOpenAI_execute_run
      [of "example_openai_env (A_openai_chunks, Some boom)"
          "\<lparr>cr_apiKey = ''k'', cr_organizationId = None\<rparr>" A_openai_chunks "Some boom"]
    by (simp add: example_simps GravityOpenAI_catch_def formatErrorResponse_def boom_def Let_def)
  have send: "snd (sendOpenAIRequest (oe_client (example_openai_env (A_openai_chunks, Some boom)))
          (GravityOpenAI_openAIConfig (example_openai_env (A_openai_chunks, Some boom))
             \<lparr>cr_apiKey = ''k'', cr_organizationId = None\<rparr>)
          (GravityOpenAI_requestOptions (example_openai_env (A_openai_chunks, Some boom)))
          (Some (GravityOpenAI_onChunk example_clock ''m1'')) ([], 0)) =
     ([StreamChunk \<lparr>chunk_model = ''m1'', chunk_text = ''A'', chunk_chunkIndex = 0,
         chunk_timestamp = ''T0'', chunk_state = ''responding'', chunk_progressMessage = None\<rparr>], 1)"
    by (simp add: sendOpenAIRequest_def example_openai_env_def A_openai_chunks_def
        GravityOpenAI_onChunk_def OpenAI_formatStreamChunk_def ChatState_RESPONDING_def
        example_clock_def decimal.simps Let_def)
  show ?thesis
    unfolding run using send by simp
qed

text \<open>
  C3, amended. When the provider's stream breaks after any number of fragments, each
  output of \<^verbatim>\<open>GravityOpenAI.execute\<close> (two outputs) and of \<^verbatim>\<open>GravityClaude.execute\<close> (three)
  holds exactly one error record, with the message and stack of the failure (the message
  \<open>Unknown error\<close> when the failure has none); the chunk records made before the failure
  are not returned.
\<close>

theorem failed_stream_returns_error_records:
  assumes "oe_getCredentials oenv = Inr ocreds"
      and "oe_client oenv (GravityOpenAI_openAIConfig oenv ocreds)
             (openai_createParams (GravityOpenAI_requestOptions oenv)) = Inr (ochunks, Some oerror)"
      and "ce_getInputData cenv 1 = Inr got"
      and "ce_getCredentials cenv = Inr ccreds"
      and "ce_client cenv (GravityClaude_bedrockConfig cenv ccreds)
             (claude_commandInput
                (GravityClaude_requestOptions cenv (case got of None \<Rightarrow> [] | Some xs \<Rightarrow> xs))) =
           Inr (Some (cchunks, Some cerror))"
  shows "GravityOpenAI_execute oenv =
           replicate 2
             [ErrorResponse
                \<lparr>er_error = True,
                 er_message = (if err_message oerror \<noteq> [] then err_message oerror
                               else ''Unknown error''),
                 er_stack = err_stack oerror,
                 er_timestamp =
                   oe_Date_toISOString oenv (length (nonempty (map openai_content ochunks)))\<rparr>]
         \<and> GravityClaude_execute cenv =
           replicate 3
             [ErrorResponse
                \<lparr>er_error = True,
                 er_message = (if err_message cerror \<noteq> [] then err_message cerror
                               else ''Unknown error''),
                 er_stack = err_stack cerror,
                 er_timestamp =
                   ce_Date_toISOString cenv (length (nonempty (map claude_fragment cchunks)))\<rparr>]"
  by (simp add: GravityOpenAI_execute_run [OF assms(1,2)] GravityClaude_execute_run [OF assms(3,4,5)]
      GravityOpenAI_catch_def GravityClaude_catch_def formatErrorResponse_def Let_def
      numeral_2_eq_2 numeral_3_eq_3)

theorem failed_stream_returns_error_records_witness:
  "GravityOpenAI_execute (example_openai_env (A_openai_chunks, Some boom)) =
     replicate 2
       [ErrorResponse \<lparr>er_error = True, er_message = ''boom'', er_stack = ''at stream'',
          er_timestamp = ''T1''\<rparr>]
   \<and> GravityClaude_execute (example_claude_env None (A_claude_chunks, Some boom)) =
     replicate 3
       [ErrorResponse \<lparr>er_error = True, er_message = ''boom'', er_stack = ''at stream'',
          er_timestamp = ''T1''\<rparr>]"
  using failed_stream_returns_error_records
    [of "example_openai_env (A_openai_chunks, Some boom)"
        "\<lparr>cr_apiKey = ''k'', cr_organizationId = None\<rparr>" A_openai_chunks boom
        "example_claude_env None (A_claude_chunks, Some boom)" None
        "\<lparr>aws_accessKeyId = ''id'', aws_secretAccessKey = ''secret''\<rparr>" A_claude_chunks boom]
  by (simp add: example_simps boom_def)

text \<open>
  C1 does not hold of GravityClaude: with the advanced option \<open>state\<close> set to
  \<^verbatim>\<open>ChatState.THINKING\<close> and the single fragment \<open>A\<close>, the chunk record still carries
  \<open>responding\<close> and the completion record \<open>complete\<close>.
\<close>

theorem claude_state_override_dropped:
  "hd (GravityClaude_execute
         (example_claude_env (Some \<lparr>ao_state = Some ChatState_THINKING, ao_progressMessage = None\<rparr>)
            (A_claude_chunks, None))) =
     [StreamChunk \<lparr>chunk_model = ''m1'', chunk_text = ''A'', chunk_chunkIndex = 0,
        chunk_timestamp = ''T0'', chunk_state = ''responding'', chunk_progressMessage = None\<rparr>,
      StreamChunk \<lparr>chunk_model = ''m1'', chunk_text = '' '', chunk_chunkIndex = 1,
        chunk_timestamp = ''T1'', chunk_state = ''complete'', chunk_progressMessage = None\<rparr>]"
  using GravityClaude_execute_run
    [of "example_claude_env (Some \<lparr>ao_state = Some ChatState_THINKING, ao_progressMessage = None\<rparr>)
           (A_claude_chunks, None)" None
        "\<lparr>aws_accessKeyId = ''id'', aws_secretAccessKey = ''secret''\<rparr>" A_claude_chunks None]
  by (simp add: example_simps GravityClaude_requestOptions_def Bedrock_formatStreamChunk_def
      Bedrock_createCompletionChunk_def ChatState_RESPONDING_def ChatState_COMPLETE_def)

text \<open>
  More generally, the advanced options of GravityClaude have no effect on what
  \<^verbatim>\<open>execute\<close> returns.
\<close>

lemma GravityClaude_ignores_advancedOptions:
  "GravityClaude_execute (env\<lparr>ce_parameters := (ce_parameters env)\<lparr>cl_advancedOptions := ao\<rparr>\<rparr>) =
   GravityClaude_execute env"
proof -
  have cb: "GravityClaude_onChunk clock model a =
            (\<lambda>text chunkIndex st.
               case st of
                 (streamOutput, ticks) \<Rightarrow>
                   (streamOutput @ [Bedrock_formatStreamChunk (clock ticks) model text chunkIndex],
                    ticks + 1))" for clock model a
    by (intro ext) (simp add: GravityClaude_onChunk_def)
  have opts: "GravityClaude_requestOptions
                (env\<lparr>ce_parameters := (ce_parameters env)\<lparr>cl_advancedOptions := ao\<rparr>\<rparr>) xs =
              GravityClaude_requestOptions env xs" for xs
    by (simp add: GravityClaude_requestOptions_def Let_def)
  have cfg: "GravityClaude_bedrockConfig
                (env\<lparr>ce_parameters := (ce_parameters env)\<lparr>cl_advancedOptions := ao\<rparr>\<rparr>) c =
              GravityClaude_bedrockConfig env c" for c
    by (simp add: GravityClaude_bedrockConfig_def)
  show ?thesis
    unfolding GravityClaude_execute_def Let_def opts cfg cb
    by (simp cong: sum.case_cong prod.case_cong)
qed

text \<open>
  The formatters of OpenAIService do put a non-empty override into the state of both
  kinds of record; \<^verbatim>\<open>GravityOpenAI.execute\<close> never passes one.
\<close>

lemma OpenAI_formatters_honour_override:
  "stateOverride \<noteq> [] \<Longrightarrow>
   OpenAI_formatStreamChunk now model text chunkIndex (Some stateOverride) progressMessage =
     StreamChunk \<lparr>chunk_model = model, chunk_text = text, chunk_chunkIndex = chunkIndex,
       chunk_timestamp = now, chunk_state = stateOverride,
       chunk_progressMessage =
         (case progressMessage of None \<Rightarrow> None | Some m \<Rightarrow> if m \<noteq> [] then Some m else None)\<rparr>
   \<and> OpenAI_createCompletionChunk now model chunkCount (Some stateOverride) progressMessage =
     StreamChunk \<lparr>chunk_model = model, chunk_text = '' '', chunk_chunkIndex = chunkCount,
       chunk_timestamp = now, chunk_state = stateOverride,
       chunk_progressMessage =
         (case progressMessage of None \<Rightarrow> None | Some m \<Rightarrow> if m \<noteq> [] then Some m else None)\<rparr>"
  by (simp add: OpenAI_formatStreamChunk_def OpenAI_createCompletionChunk_def)

text \<open>
  What the invocation with the expression returns, from the field \<open>message\<close> of its first
  item (a text that the stand-in parser rejects).
\<close>

lemma expression_run:
  "message \<noteq> ''7'' \<Longrightarrow> message \<noteq> ''[1,2]'' \<Longrightarrow>
   map_of (item_json item) ''message'' = Some (JString message) \<Longrightarrow>
   GravityOpenAI_execute (expression_openai_env (item # rest)) = expression_result message"
  using GravityOpenAI_execute_run
    [of "expression_openai_env (item # rest)" "\<lparr>cr_apiKey = ''k'', cr_organizationId = None\<rparr>"
        A_openai_chunks None]
  by (simp add: expression_openai_env_def expression_result_def example_simps
      GravityOpenAI_requestOptions_def OpenAI_processUserMessage_def example_JSON_parse_def
      OpenAI_formatStreamChunk_def OpenAI_createCompletionChunk_def
      OpenAI_createFinalResponseObject_def ChatState_RESPONDING_def ChatState_COMPLETE_def Let_def)

text \<open>
  C10, as stated, fails. Two invocations of \<^verbatim>\<open>GravityOpenAI.execute\<close> with the same
  configured parameters, credentials, provider and clock, whose single input items differ
  in the field the Message expression reads, return different Result outputs: the messages
  sent and reported differ.
\<close>

theorem GravityOpenAI_output_depends_on_first_item:
  "GravityOpenAI_execute (expression_openai_env [\<lparr>item_json = [(''message'', JString ''hi'')]\<rparr>]) =
     expression_result ''hi''
   \<and> GravityOpenAI_execute (expression_openai_env [\<lparr>item_json = [(''message'', JString ''bye'')]\<rparr>]) =
     expression_result ''bye''
   \<and> GravityOpenAI_execute (expression_openai_env [\<lparr>item_json = [(''message'', JString ''hi'')]\<rparr>]) \<noteq>
     GravityOpenAI_execute (expression_openai_env [\<lparr>item_json = [(''message'', JString ''bye'')]\<rparr>])"
proof -
  have hi: "GravityOpenAI_execute
              (expression_openai_env [\<lparr>item_json = [(''message'', JString ''hi'')]\<rparr>]) =
            expression_result ''hi''"
    by (simp add: expression_run)
  have bye: "GravityOpenAI_execute
               (expression_openai_env [\<lparr>item_json = [(''message'', JString ''bye'')]\<rparr>]) =
             expression_result ''bye''"
    by (simp add: expression_run)
  show ?thesis
    unfolding hi bye by (simp add: expression_result_def)
qed

text \<open>
  C10, amended. \<^verbatim>\<open>GravityOpenAI.execute\<close> never calls \<^verbatim>\<open>getInputData\<close>; the items on the main
  input reach it only through the values \<^verbatim>\<open>this.getNodeParameter\<close> resolves for item
  index 0. Two invocations that differ only in their input items, and whose parameters
  resolve to the same values at index 0, return the same Stream and Result outputs (the
  readings of the clock being the same).
\<close>

theorem GravityOpenAI_items_only_through_parameters:
  assumes "oe_resolveParameters env items 0 = oe_resolveParameters env items' 0"
  shows "GravityOpenAI_execute (env\<lparr>oe_getInputData := items\<rparr>) =
         GravityOpenAI_execute (env\<lparr>oe_getInputData := items'\<rparr>)"
proof -
  have ps: "oe_parameters (env\<lparr>oe_getInputData := items\<rparr>) =
            oe_parameters (env\<lparr>oe_getInputData := items'\<rparr>)"
    using assms by (simp add: oe_parameters_def)
  have cfg: "GravityOpenAI_openAIConfig (env\<lparr>oe_getInputData := items\<rparr>) creds =
             GravityOpenAI_openAIConfig (env\<lparr>oe_getInputData := items'\<rparr>) creds" for creds
    by (simp add: GravityOpenAI_openAIConfig_def ps)
  have opts: "GravityOpenAI_requestOptions (env\<lparr>oe_getInputData := items\<rparr>) =
              GravityOpenAI_requestOptions (env\<lparr>oe_getInputData := items'\<rparr>)"
    by (simp add: GravityOpenAI_requestOptions_def ps)
  show ?thesis
    unfolding GravityOpenAI_execute_def Let_def cfg opts
    by (simp cong: sum.case_cong prod.case_cong)
qed

theorem GravityOpenAI_items_only_through_parameters_witness:
  "oe_resolveParameters (expression_openai_env [])
     [\<lparr>item_json = [(''message'', JString ''hi'')]\<rparr>,
      \<lparr>item_json = [(''message'', JString ''bye'')]\<rparr>] 0 =
   oe_resolveParameters (expression_openai_env [])
     [\<lparr>item_json = [(''message'', JString ''hi''), (''n'', JNumber 1)]\<rparr>] 0
   \<and> GravityOpenAI_execute
       (expression_openai_env
          [\<lparr>item_json = [(''message'', JString ''hi'')]\<rparr>,
           \<lparr>item_json = [(''message'', JString ''bye'')]\<rparr>]) =
     GravityOpenAI_execute
       (expression_openai_env [\<lparr>item_json = [(''message'', JString ''hi''), (''n'', JNumber 1)]\<rparr>])"
  using GravityOpenAI_items_only_through_parameters
    [of "expression_openai_env []"
        "[\<lparr>item_json = [(''message'', JString ''hi'')]\<rparr>,
          \<lparr>item_json = [(''message'', JString ''bye'')]\<rparr>]"
        "[\<lparr>item_json = [(''message'', JString ''hi''), (''n'', JNumber 1)]\<rparr>]"]
  by (simp add: expression_openai_env_def)

section \<open>The nodes that publish to the bus\<close>

lemmas MessageType_defs =
  MessageType_TEXT_def MessageType_JSON_DATA_def MessageType_IMAGE_RESPONSE_def
  MessageType_TOOL_OUTPUT_def MessageType_ACTION_SUGGESTION_def MessageType_PROGRESS_UPDATE_def
  MessageType_MESSAGE_CHUNK_def MessageType_METADATA_def

lemmas bus_example_simps =
  example_bus_env_def example_output_parameters_def example_update_parameters_def
  example_JSON_parse_def example_publisher_def example_base_event_def example_clock_def
  getNodeParameter_def initial_state_def nodeProviderId_def event_id_def decimal.simps
  ChatState_ACTIVE_def publishEvent_def Let_def

text \<open>
  C2 does not hold of GravityUpdate, which builds its base event without looking at the
  ids: with an empty Chat ID and a progress update, the envelope handed to the bus and
  accepted by it has an empty \<^verbatim>\<open>chatId\<close>, and the item is reported as a success.
\<close>

theorem GravityUpdate_publishes_empty_chatId:
  "GravityUpdate_execute
     (example_bus_env (example_update_parameters [] MessageType_PROGRESS_UPDATE ''{}'')) =
     (Inr [[\<lparr>item_json =
              [(''success'', JBool True), (''updateType'', JString ''progressUpdate''),
               (''timestamp'', JString ''T2''), (''message'', JString ''working'')]\<rparr>]],
      [(''results'',
        \<lparr>gm_base =
           \<lparr>ev_id = ''1000-abcdefghi'', ev_chatId = [], ev_conversationId = ''c1'',
            ev_userId = ''u1'', ev_providerId = ''n8n:w1:n1'', ev_timestamp = 1001,
            ev_state = ''active''\<rparr>,
         gm_type = ''progressUpdate'', gm_payload = ProgressUpdatePayload ''working'',
         gm_voiceConfig = None\<rparr>)])"
  by (simp add: GravityUpdate_execute_def example_bus_env_def example_update_parameters_def
      GravityUpdate_item_def GravityUpdate_try_def GravityUpdate_switch_def
      GravityUpdate_baseEvent_def MessageType_defs publishEvent_def push_success_def
      createProgressUpdate_def initial_state_def nodeProviderId_def event_id_def
      getNodeParameter_def ChatState_ACTIVE_def example_clock_def decimal.simps Let_def)

text \<open>
  GravityOutput checks the three ids before it builds the base event, so every envelope
  one round of its loop publishes has a non-empty \<^verbatim>\<open>id\<close>, \<^verbatim>\<open>chatId\<close>, \<^verbatim>\<open>conversationId\<close>
  and \<^verbatim>\<open>userId\<close>.
\<close>

lemma event_id_nonempty: "event_id now random36 \<noteq> []"
  by (simp add: event_id_def)

lemma GravityOutput_switch_published:
  "\<exists>ms. ns_published (snd (GravityOutput_switch env pub ps b st)) = ns_published st @ ms
        \<and> (\<forall>cm \<in> set ms. gm_base (snd cm) = b)"
  by (simp add: GravityOutput_switch_def publishEvent_def Let_def createText_def
      createJsonData_def createImageResponse_def createToolOutput_def createActionSuggestion_def
      split: option.splits)

lemma GravityOutput_envelopes_identified:
  "\<exists>ms. ns_published (snd (GravityOutput_try env item itemIndex st)) = ns_published st @ ms
        \<and> (\<forall>cm \<in> set ms.
              ev_id (gm_base (snd cm)) \<noteq> [] \<and> ev_chatId (gm_base (snd cm)) \<noteq> []
              \<and> ev_conversationId (gm_base (snd cm)) \<noteq> [] \<and> ev_userId (gm_base (snd cm)) \<noteq> [])"
proof (cases "be_getCredentials env")
  case (Inl e)
  then show ?thesis by (simp add: GravityOutput_try_def)
next
  case (Inr credentials)
  let ?ps = "be_parameters env itemIndex"
  show ?thesis
  proof (cases "gp_conversationId ?ps = [] \<or> gp_chatId ?ps = [] \<or> gp_userId ?ps = []")
    case True
    then show ?thesis using Inr by (auto simp add: GravityOutput_try_def Let_def)
  next
    case False
    let ?pub = "\<lparr>pb_serverUrl = gc_serverUrl credentials, pb_apiKey = gc_apiKey credentials,
                  pb_providerId = nodeProviderId (be_workflow_id env) (be_node_id env)\<rparr>"
    let ?state = "if getNodeParameter (gp_advancedOptions ?ps) False
                  then getNodeParameter (gp_state ?ps) ChatState_ACTIVE else ChatState_ACTIVE"
    let ?b = "GravityOutput_baseEvent env (nodeProviderId (be_workflow_id env) (be_node_id env))
                ?ps ?state st"
    let ?st1 = "st\<lparr>ns_ticks := ns_ticks st + 2, ns_draws := ns_draws st + 1\<rparr>"
    obtain ms where ms: "ns_published (snd (GravityOutput_switch env ?pub ?ps ?b ?st1)) =
                           ns_published ?st1 @ ms"
                        "\<forall>cm \<in> set ms. gm_base (snd cm) = ?b"
      using GravityOutput_switch_published [of env ?pub ?ps ?b ?st1] by blast
    have ids: "ev_id ?b \<noteq> [] \<and> ev_chatId ?b \<noteq> [] \<and> ev_conversationId ?b \<noteq> [] \<and> ev_userId ?b \<noteq> []"
      using False by (simp add: GravityOutput_baseEvent_def event_id_nonempty)
    have "ns_published (snd (GravityOutput_try env item itemIndex st)) =
            ns_published (snd (GravityOutput_switch env ?pub ?ps ?b ?st1))"
      using Inr False
      by (cases "GravityOutput_switch env ?pub ?ps ?b ?st1")
         (auto simp add: GravityOutput_try_def Let_def split: option.splits)
    with ms ids show ?thesis by auto
  qed
qed

text \<open>
  C9, as stated, fails. With an empty Chat ID on its only item and the advanced options
  choosing \<open>continue\<close> for the error handling, \<^verbatim>\<open>GravityOutput.execute\<close> does not fail: it
  returns the item with \<^verbatim>\<open>success: false\<close> and the message of the validation error.
\<close>

theorem empty_chatId_under_continue_returns_normally:
  "GravityOutput_execute
     (example_bus_env
        ((example_output_parameters [] MessageType_TEXT ''7'')
           \<lparr>gp_advancedOptions := Some True, gp_errorHandling := Some ''continue''\<rparr>)) =
     (Inr [[\<lparr>item_json =
              [(''n'', JNumber 1), (''success'', JBool False),
               (''error'', JString ''Required IDs missing'')]\<rparr>]],
      [])"
  by (simp add: GravityOutput_execute_def GravityOutput_item_def GravityOutput_try_def
      GravityOutput_errorHandling_def NodeOperationError_def spread_with_def bus_example_simps)

text \<open>
  C9, amended. When the Chat ID, the Conversation ID or the User ID of an item of
  GravityOutput is the empty string, the \<^verbatim>\<open>try\<close> block of that item throws and leaves the
  state as it was: the clock and the random source have not been read and nothing has been
  published, so no base event and no envelope has been built for the item. The error is
  the validation error \<open>Required IDs missing\<close> whenever \<^verbatim>\<open>getCredentials\<close> has returned
  (it is called first, and its own error is the one thrown when it fails). The \<^verbatim>\<open>catch\<close>
  block rethrows the error, and the loop and \<^verbatim>\<open>execute\<close> end with it, what earlier items
  have published staying published; unless the advanced options choose \<open>continue\<close>: then
  the item gets a failure record with the message of the error and the loop goes on with
  the next item.
\<close>

theorem missing_ids_raise_before_envelope:
  assumes "gp_chatId (be_parameters env itemIndex) = []
           \<or> gp_conversationId (be_parameters env itemIndex) = []
           \<or> gp_userId (be_parameters env itemIndex) = []"
  shows "GravityOutput_try env item itemIndex st =
           (Some (case be_getCredentials env of
                    Inl e \<Rightarrow> e
                  | Inr credentials \<Rightarrow> NodeOperationError ''Required IDs missing''),
            st)
         \<and> GravityOutput_item env item itemIndex st =
           (let error = (case be_getCredentials env of
                           Inl e \<Rightarrow> e
                         | Inr credentials \<Rightarrow> NodeOperationError ''Required IDs missing'')
            in if GravityOutput_errorHandling (be_parameters env itemIndex) = ''continue'' then
                 (None,
                  st\<lparr>ns_returnData :=
                       ns_returnData st
                       @ [\<lparr>item_json =
                             spread_with (item_json item)
                               [(''success'', JBool False),
                                (''error'',
                                   JString (if err_message error \<noteq> [] then err_message error
                                            else ''Unknown error in Gravity Output''))]\<rparr>]\<rparr>)
               else (Some error, st))
         \<and> GravityOutput_loop env (item # rest) itemIndex st =
           (let error = (case be_getCredentials env of
                           Inl e \<Rightarrow> e
                         | Inr credentials \<Rightarrow> NodeOperationError ''Required IDs missing'')
            in if GravityOutput_errorHandling (be_parameters env itemIndex) = ''continue'' then
                 GravityOutput_loop env rest (itemIndex + 1)
                   (st\<lparr>ns_returnData :=
                        ns_returnData st
                        @ [\<lparr>item_json =
                              spread_with (item_json item)
                                [(''success'', JBool False),
                                 (''error'',
                                    JString (if err_message error \<noteq> [] then err_message error
                                             else ''Unknown error in Gravity Output''))]\<rparr>]\<rparr>)
               else (Some error, st))"
proof -
  have body: "GravityOutput_try env item itemIndex st =
           (Some (case be_getCredentials env of
                    Inl e \<Rightarrow> e
                  | Inr credentials \<Rightarrow> NodeOperationError ''Required IDs missing''),
            st)"
    using assms by (auto simp add: GravityOutput_try_def Let_def split: sum.splits)
  show ?thesis
    by (simp add: body GravityOutput_item_def Let_def)
qed

theorem missing_ids_raise_before_envelope_witness:
  "GravityOutput_try (example_bus_env (example_output_parameters [] MessageType_TEXT ''7''))
     \<lparr>item_json = [(''n'', JNumber 1)]\<rparr> 0 initial_state =
     (Some (NodeOperationError ''Required IDs missing''), initial_state)
   \<and> GravityOutput_item (example_bus_env (example_output_parameters [] MessageType_TEXT ''7''))
       \<lparr>item_json = [(''n'', JNumber 1)]\<rparr> 0 initial_state =
     (Some (NodeOperationError ''Required IDs missing''), initial_state)
   \<and> GravityOutput_execute (example_bus_env (example_output_parameters [] MessageType_TEXT ''7'')) =
     (Inl (NodeOperationError ''Required IDs missing''), [])"
proof -
  have item:
    "GravityOutput_try (example_bus_env (example_output_parameters [] MessageType_TEXT ''7''))
       \<lparr>item_json = [(''n'', JNumber 1)]\<rparr> 0 initial_state =
       (Some (NodeOperationError ''Required IDs missing''), initial_state)
     \<and> GravityOutput_item (example_bus_env (example_output_parameters [] MessageType_TEXT ''7''))
         \<lparr>item_json = [(''n'', JNumber 1)]\<rparr> 0 initial_state =
       (Some (NodeOperationError ''Required IDs missing''), initial_state)"
    using missing_ids_raise_before_envelope
      [of "example_bus_env (example_output_parameters [] MessageType_TEXT ''7'')" 0
          "\<lparr>item_json = [(''n'', JNumber 1)]\<rparr>" initial_state]
    by (simp add: example_bus_env_def example_output_parameters_def GravityOutput_errorHandling_def
        getNodeParameter_def Let_def)
  have "be_getInputData (example_bus_env (example_output_parameters [] MessageType_TEXT ''7'')) =
          [\<lparr>item_json = [(''n'', JNumber 1)]\<rparr>]"
    by (simp add: example_bus_env_def)
  with item show ?thesis
    by (simp add: GravityOutput_execute_def initial_state_def)
qed

text \<open>
  C8. In the tool output case of GravityOutput (credentials and ids present), a
  \<^verbatim>\<open>jsonData\<close> text that \<^verbatim>\<open>JSON.parse\<close> rejects makes the \<^verbatim>\<open>try\<close> block throw the error
  \<open>Invalid JSON data for tool output\<close>, and no envelope is published in that round of
  the loop. The \<^verbatim>\<open>catch\<close> block rethrows the error, or under \<open>continue\<close> records it
  in a failure record.
\<close>

theorem malformed_tool_output_fails:
  assumes "be_getCredentials env = Inr credentials"
      and "gp_chatId (be_parameters env itemIndex) \<noteq> []"
      and "gp_conversationId (be_parameters env itemIndex) \<noteq> []"
      and "gp_userId (be_parameters env itemIndex) \<noteq> []"
      and "gp_outputType (be_parameters env itemIndex) = MessageType_TOOL_OUTPUT"
      and "be_JSON_parse env (gp_jsonData (be_parameters env itemIndex)) = None"
  shows "fst (GravityOutput_try env item itemIndex st) =
           Some (NodeOperationError ''Invalid JSON data for tool output'')
         \<and> ns_published (snd (GravityOutput_try env item itemIndex st)) = ns_published st
         \<and> fst (GravityOutput_item env item itemIndex st) =
             (if GravityOutput_errorHandling (be_parameters env itemIndex) = ''continue'' then None
              else Some (NodeOperationError ''Invalid JSON data for tool output''))
         \<and> ns_published (snd (GravityOutput_item env item itemIndex st)) = ns_published st
         \<and> ns_returnData (snd (GravityOutput_item env item itemIndex st)) =
             ns_returnData st
             @ (if GravityOutput_errorHandling (be_parameters env itemIndex) = ''continue'' then
                  [\<lparr>item_json =
                      spread_with (item_json item)
                        [(''success'', JBool False),
                         (''error'', JString ''Invalid JSON data for tool output'')]\<rparr>]
                else [])"
proof -
  have sw: "GravityOutput_switch env pub (be_parameters env itemIndex) b s =
            (Some (NodeOperationError ''Invalid JSON data for tool output''), s)" for pub b s
    using assms(5,6) by (simp add: GravityOutput_switch_def MessageType_defs Let_def)
  have body: "GravityOutput_try env item itemIndex st =
           (Some (NodeOperationError ''Invalid JSON data for tool output''),
            st\<lparr>ns_ticks := ns_ticks st + 2, ns_draws := ns_draws st + 1\<rparr>)"
    using assms(1-4) by (simp add: GravityOutput_try_def sw Let_def)
  show ?thesis
    by (simp add: body GravityOutput_item_def Let_def NodeOperationError_def)
qed

theorem malformed_tool_output_fails_witness:
  "fst (GravityOutput_try
          (example_bus_env (example_output_parameters ''chat1'' MessageType_TOOL_OUTPUT ''{oops''))
          \<lparr>item_json = [(''n'', JNumber 1)]\<rparr> 0 initial_state) =
     Some (NodeOperationError ''Invalid JSON data for tool output'')
   \<and> ns_published
       (snd (GravityOutput_try
               (example_bus_env (example_output_parameters ''chat1'' MessageType_TOOL_OUTPUT ''{oops''))
               \<lparr>item_json = [(''n'', JNumber 1)]\<rparr> 0 initial_state)) = []
   \<and> fst (GravityOutput_item
            (example_bus_env (example_output_parameters ''chat1'' MessageType_TOOL_OUTPUT ''{oops''))
            \<lparr>item_json = [(''n'', JNumber 1)]\<rparr> 0 initial_state) =
     Some (NodeOperationError ''Invalid JSON data for tool output'')
   \<and> ns_published
       (snd (GravityOutput_item
               (example_bus_env (example_output_parameters ''chat1'' MessageType_TOOL_OUTPUT ''{oops''))
               \<lparr>item_json = [(''n'', JNumber 1)]\<rparr> 0 initial_state)) = []
   \<and> ns_returnData
       (snd (GravityOutput_item
               (example_bus_env (example_output_parameters ''chat1'' MessageType_TOOL_OUTPUT ''{oops''))
               \<lparr>item_json = [(''n'', JNumber 1)]\<rparr> 0 initial_state)) = []
   \<and> GravityOutput_execute
       (example_bus_env (example_output_parameters ''chat1'' MessageType_TOOL_OUTPUT ''{oops'')) =
     (Inl (NodeOperationError ''Invalid JSON data for tool output''), [])"
proof -
  have round: "fst (GravityOutput_try
            (example_bus_env (example_output_parameters ''chat1'' MessageType_TOOL_OUTPUT ''{oops''))
            \<lparr>item_json = [(''n'', JNumber 1)]\<rparr> 0 initial_state) =
       Some (NodeOperationError ''Invalid JSON data for tool output'')
     \<and> ns_published
         (snd (GravityOutput_try
                 (example_bus_env (example_output_parameters ''chat1'' MessageType_TOOL_OUTPUT ''{oops''))
                 \<lparr>item_json = [(''n'', JNumber 1)]\<rparr> 0 initial_state)) = []
     \<and> fst (GravityOutput_item
              (example_bus_env (example_output_parameters ''chat1'' MessageType_TOOL_OUTPUT ''{oops''))
              \<lparr>item_json = [(''n'', JNumber 1)]\<rparr> 0 initial_state) =
       Some (NodeOperationError ''Invalid JSON data for tool output'')
     \<and> ns_published
         (snd (GravityOutput_item
                 (example_bus_env (example_output_parameters ''chat1'' MessageType_TOOL_OUTPUT ''{oops''))
                 \<lparr>item_json = [(''n'', JNumber 1)]\<rparr> 0 initial_state)) = []
     \<and> ns_returnData
         (snd (GravityOutput_item
                 (example_bus_env (example_output_parameters ''chat1'' MessageType_TOOL_OUTPUT ''{oops''))
                 \<lparr>item_json = [(''n'', JNumber 1)]\<rparr> 0 initial_state)) = []"
    using malformed_tool_output_fails
      [of "example_bus_env (example_output_parameters ''chat1'' MessageType_TOOL_OUTPUT ''{oops'')"
          "\<lparr>gc_serverUrl = ''bus.example'', gc_apiKey = ''key''\<rparr>" 0
          "\<lparr>item_json = [(''n'', JNumber 1)]\<rparr>" initial_state]
    by (simp add: example_bus_env_def example_output_parameters_def GravityOutput_errorHandling_def
        getNodeParameter_def example_JSON_parse_def initial_state_def Let_def)
  have run: "GravityOutput_execute
       (example_bus_env (example_output_parameters ''chat1'' MessageType_TOOL_OUTPUT ''{oops'')) =
     (Inl (NodeOperationError ''Invalid JSON data for tool output''), [])"
    by (simp add: GravityOutput_execute_def GravityOutput_item_def GravityOutput_try_def
        GravityOutput_switch_def GravityOutput_baseEvent_def GravityOutput_errorHandling_def
        MessageType_defs bus_example_simps)
  from round run show ?thesis by blast
qed

text \<open>
  C7. In the JSON data case of GravityOutput and of GravityUpdate, when \<^verbatim>\<open>JSON.parse\<close>
  returns \<open>v\<close> and the bus accepts the envelope, exactly one envelope is published and
  its \<^verbatim>\<open>items\<close> are \<open>v\<close> itself when \<open>v\<close> is an array (not wrapped again) and the
  one-element array \<open>[v]\<close> when it is not.
\<close>

theorem jsonData_items_wrapped_once:
  assumes "gp_outputType ops = MessageType_JSON_DATA"
      and "be_JSON_parse oenv (gp_jsonData ops) = Some ov"
      and "be_bus oenv opub (be_AI_RESULT_CHANNEL oenv)
             (createJsonData obase
                \<lparr>fd_dataType = getNodeParameter (gp_jsonDataFieldName ops) ''data'',
                 fd_items = dataArray ov\<rparr>) = None"
      and "up_updateType ups = MessageType_JSON_DATA"
      and "be_JSON_parse uenv (up_jsonData ups) = Some uv"
      and "be_bus uenv upub (be_AI_RESULT_CHANNEL uenv)
             (createJsonData ubase
                \<lparr>fd_dataType = getNodeParameter (up_jsonDataFieldName ups) ''calls'',
                 fd_items = dataArray uv\<rparr>) = None"
  shows "ns_published (snd (GravityOutput_switch oenv opub ops obase ost)) =
           ns_published ost
           @ [(be_AI_RESULT_CHANNEL oenv,
               createJsonData obase
                 \<lparr>fd_dataType = getNodeParameter (gp_jsonDataFieldName ops) ''data'',
                  fd_items = dataArray ov\<rparr>)]
         \<and> (Array_isArray ov \<longrightarrow> JArray (dataArray ov) = ov)
         \<and> (\<not> Array_isArray ov \<longrightarrow> dataArray ov = [ov])
         \<and> ns_published (snd (GravityUpdate_switch uenv upub ups ubase ust)) =
           ns_published ust
           @ [(be_AI_RESULT_CHANNEL uenv,
               createJsonData ubase
                 \<lparr>fd_dataType = getNodeParameter (up_jsonDataFieldName ups) ''calls'',
                  fd_items = dataArray uv\<rparr>)]
         \<and> (Array_isArray uv \<longrightarrow> JArray (dataArray uv) = uv)
         \<and> (\<not> Array_isArray uv \<longrightarrow> dataArray uv = [uv])"
proof -
  have arr: "(Array_isArray v \<longrightarrow> JArray (dataArray v) = v)
             \<and> (\<not> Array_isArray v \<longrightarrow> dataArray v = [v])" for v
    by (cases v) simp_all
  have out: "ns_published (snd (GravityOutput_switch oenv opub ops obase ost)) =
           ns_published ost
           @ [(be_AI_RESULT_CHANNEL oenv,
               createJsonData obase
                 \<lparr>fd_dataType = getNodeParameter (gp_jsonDataFieldName ops) ''data'',
                  fd_items = dataArray ov\<rparr>)]"
    using assms(1-3)
    by (simp add: GravityOutput_switch_def MessageType_defs publishEvent_def Let_def)
  have upd: "ns_published (snd (GravityUpdate_switch uenv upub ups ubase ust)) =
           ns_published ust
           @ [(be_AI_RESULT_CHANNEL uenv,
               createJsonData ubase
                 \<lparr>fd_dataType = getNodeParameter (up_jsonDataFieldName ups) ''calls'',
                  fd_items = dataArray uv\<rparr>)]"
    using assms(4-6)
    by (simp add: GravityUpdate_switch_def MessageType_defs publishEvent_def push_success_def Let_def)
  show ?thesis
    using out upd arr [of ov] arr [of uv] by simp
qed


theorem jsonData_items_wrapped_once_witness:
  "ns_published
     (snd (GravityOutput_switch
             (example_bus_env (example_output_parameters ''chat1'' MessageType_JSON_DATA ''7''))
             example_publisher (example_output_parameters ''chat1'' MessageType_JSON_DATA ''7'')
             (example_base_event ''chat1'') initial_state)) =
     [(''results'',
       createJsonData (example_base_event ''chat1'')
         \<lparr>fd_dataType = ''data'', fd_items = [JNumber 7]\<rparr>)]
   \<and> ns_published
       (snd (GravityUpdate_switch
               (example_bus_env (example_update_parameters ''chat1'' MessageType_JSON_DATA ''[1,2]''))
               example_publisher (example_update_parameters ''chat1'' MessageType_JSON_DATA ''[1,2]'')
               (example_base_event ''chat1'') initial_state)) =
     [(''results'',
       createJsonData (example_base_event ''chat1'')
         \<lparr>fd_dataType = ''calls'', fd_items = [JNumber 1, JNumber 2]\<rparr>)]
   \<and> snd (GravityOutput_execute
            (example_bus_env (example_output_parameters ''chat1'' MessageType_JSON_DATA ''7''))) =
     [(''results'',
       createJsonData (example_base_event ''chat1'')
         \<lparr>fd_dataType = ''data'', fd_items = [JNumber 7]\<rparr>)]
   \<and> snd (GravityUpdate_execute
            (example_bus_env (example_update_parameters ''chat1'' MessageType_JSON_DATA ''[1,2]''))) =
     [(''results'',
       createJsonData (example_base_event ''chat1'')
         \<lparr>fd_dataType = ''calls'', fd_items = [JNumber 1, JNumber 2]\<rparr>)]"
proof -
  have switch: "ns_published
       (snd (GravityOutput_switch
               (example_bus_env (example_output_parameters ''chat1'' MessageType_JSON_DATA ''7''))
               example_publisher (example_output_parameters ''chat1'' MessageType_JSON_DATA ''7'')
               (example_base_event ''chat1'') initial_state)) =
       [(''results'',
         createJsonData (example_base_event ''chat1'')
           \<lparr>fd_dataType = ''data'', fd_items = [JNumber 7]\<rparr>)]
     \<and> ns_published
         (snd (GravityUpdate_switch
                 (example_bus_env (example_update_parameters ''chat1'' MessageType_JSON_DATA ''[1,2]''))
                 example_publisher (example_update_parameters ''chat1'' MessageType_JSON_DATA ''[1,2]'')
                 (example_base_event ''chat1'') initial_state)) =
       [(''results'',
         createJsonData (example_base_event ''chat1'')
           \<lparr>fd_dataType = ''calls'', fd_items = [JNumber 1, JNumber 2]\<rparr>)]"
    using jsonData_items_wrapped_once
      [of "example_output_parameters ''chat1'' MessageType_JSON_DATA ''7''"
          "example_bus_env (example_output_parameters ''chat1'' MessageType_JSON_DATA ''7'')"
          "JNumber 7" example_publisher "example_base_event ''chat1''"
          "example_update_parameters ''chat1'' MessageType_JSON_DATA ''[1,2]''"
          "example_bus_env (example_update_parameters ''chat1'' MessageType_JSON_DATA ''[1,2]'')"
          "JArray [JNumber 1, JNumber 2]" example_publisher "example_base_event ''chat1''"
          initial_state initial_state]
    by (simp add: example_bus_env_def example_output_parameters_def example_update_parameters_def
        example_JSON_parse_def getNodeParameter_def initial_state_def)
  have out: "snd (GravityOutput_execute
            (example_bus_env (example_output_parameters ''chat1'' MessageType_JSON_DATA ''7''))) =
     [(''results'',
       createJsonData (example_base_event ''chat1'')
         \<lparr>fd_dataType = ''data'', fd_items = [JNumber 7]\<rparr>)]"
    by (simp add: GravityOutput_execute_def GravityOutput_item_def GravityOutput_try_def
        GravityOutput_switch_def GravityOutput_baseEvent_def MessageType_defs bus_example_simps)
  have upd: "snd (GravityUpdate_execute
            (example_bus_env (example_update_parameters ''chat1'' MessageType_JSON_DATA ''[1,2]''))) =
     [(''results'',
       createJsonData (example_base_event ''chat1'')
         \<lparr>fd_dataType = ''calls'', fd_items = [JNumber 1, JNumber 2]\<rparr>)]"
    by (simp add: GravityUpdate_execute_def GravityUpdate_item_def GravityUpdate_try_def
        GravityUpdate_switch_def GravityUpdate_baseEvent_def MessageType_defs push_success_def
        bus_example_simps)
  from switch out upd show ?thesis by blast
qed

end
